theory Spec2Isabelle
  imports Main "HOL-Library.Word"
begin

unbundle bit_operations_syntax

section \<open>Shared data model\<close>

text \<open>
  Pointers are 64-bit addresses, \<open>NULL\<close> is address 0. The \<open>from\<close> union of a transaction
  (\<open>any\<close>, \<open>proto_fd_h\<close>, \<open>proxy_node\<close>, \<open>batch_shared\<close>, \<open>iudf_orig\<close>) is one 64-bit cell
  read under whichever member name the origin selects; the \<open>from_data\<close> union (\<open>any\<close>,
  \<open>proxy_tid\<close>, \<open>batch_index\<close>) is one 32-bit cell.
\<close>

type_synonym ptr = "64 word"

definition NULL :: ptr where
  "NULL = 0"

text \<open>
  The origin tag of a transaction. The five named origins are the cases of the switch
  statements in transaction.c and udf.c; \<open>FROM_UNDEF\<close> stands for every other value of the
  byte (for instance the 0 written by \<open>as_transaction_init_head\<close>), which those switches
  send to their \<open>default\<close> branch.
\<close>

datatype origin = FROM_CLIENT | FROM_PROXY | FROM_BATCH | FROM_IUDF | FROM_NSUP | FROM_UNDEF

record as_partition_reservation =
  ns :: ptr
  pid :: "32 word"
  tree :: ptr
  n_dupl :: "32 word"

record as_transaction =
  msgp :: ptr
  msg_fields :: "32 word"
  origin :: origin
  from_flags :: "8 word"
  from_any :: ptr
  from_data_any :: "32 word"
  keyd :: "8 word list"
  start_time :: "64 word"
  benchmark_time :: "64 word"
  rsv :: as_partition_reservation
  end_time :: "64 word"
  result_code :: "8 word"
  flags :: "8 word"
  generation :: "32 word"
  void_time :: "32 word"
  last_update_time :: "64 word"

text \<open>The reply buffer of a request: \<open>used_sz\<close> bytes of \<open>buf\<close> are filled.\<close>

record cf_dyn_buf =
  buf :: "8 word list"
  used_sz :: "64 word"

text \<open>
  The fields of \<open>rw_request\<close> that udf.c and transaction.c read or write. The record is
  extensible: a statement over \<open>'a rw_request_scheme\<close> also covers every field of the C
  struct that is not listed here.
\<close>

record rw_request =
  rw_msgp :: ptr
  rw_msg_fields :: "32 word"
  rw_origin :: origin
  rw_from_flags :: "8 word"
  rw_from_any :: ptr
  rw_from_data_any :: "32 word"
  rw_keyd :: "8 word list"
  rw_start_time :: "64 word"
  rw_benchmark_time :: "64 word"
  rw_rsv :: as_partition_reservation
  rw_end_time :: "64 word"
  rw_generation :: "32 word"
  rw_void_time :: "32 word"
  response_db :: cf_dyn_buf
  rw_respond_client_on_master_completion :: bool
  has_udf :: bool
  is_multiop :: bool
  n_dest_nodes :: "32 word"

section \<open>transaction.c: moving the head of a transaction out of an rw_request\<close>

definition as_transaction_init_head_from_rw ::
  "'t as_transaction_scheme \<Rightarrow> 'r rw_request_scheme \<Rightarrow>
   't as_transaction_scheme \<times> 'r rw_request_scheme" where
  "as_transaction_init_head_from_rw tr rw =
     (tr\<lparr> msgp := rw_msgp rw,
         msg_fields := rw_msg_fields rw,
         origin := rw_origin rw,
         from_flags := rw_from_flags rw,
         from_any := rw_from_any rw,
         from_data_any := rw_from_data_any rw,
         keyd := rw_keyd rw,
         start_time := rw_start_time rw,
         benchmark_time := rw_benchmark_time rw \<rparr>,
      rw\<lparr> rw_from_any := NULL \<rparr>)"

text \<open>
  \<open>as_partition_reservation_copy\<close> belongs to the partition layer, outside the sources; as
  its name says, the destination receives the reservation of the source.
\<close>

definition as_partition_reservation_copy ::
  "as_partition_reservation \<Rightarrow> as_partition_reservation" where
  "as_partition_reservation_copy src = src"

text \<open>Modelled from the spec: the result code "\<open>OK\<close> (0)" (proto.h).\<close>

definition AS_PROTO_RESULT_OK :: "8 word" where
  "AS_PROTO_RESULT_OK = 0"

definition as_transaction_init_from_rw ::
  "'t as_transaction_scheme \<Rightarrow> 'r rw_request_scheme \<Rightarrow>
   't as_transaction_scheme \<times> 'r rw_request_scheme" where
  "as_transaction_init_from_rw tr rw =
     (case as_transaction_init_head_from_rw tr rw of (tr1, rw1) \<Rightarrow>
        (tr1\<lparr> rsv := as_partition_reservation_copy (rw_rsv rw1),
              end_time := rw_end_time rw1,
              result_code := AS_PROTO_RESULT_OK,
              flags := 0,
              generation := rw_generation rw1,
              void_time := rw_void_time rw1 \<rparr>,
         rw1))"

section \<open>udf.c: classifying the record operation of a UDF\<close>

datatype udf_optype =
    UDF_OPTYPE_NONE
  | UDF_OPTYPE_READ
  | UDF_OPTYPE_WRITE
  | UDF_OPTYPE_DELETE
  | UDF_OPTYPE_LDT_READ
  | UDF_OPTYPE_LDT_WRITE
  | UDF_OPTYPE_LDT_DELETE

text \<open>
  The bit masks \<open>UDF_RECORD_FLAG_...\<close> come from udf_record.h, which is not among the
  sources; the functions below take them as a parameter and test them exactly as udf.c
  does (\<open>(flag & MASK) != 0\<close>).
\<close>

record udf_record_flags =
  UDF_RECORD_FLAG_IS_SUBRECORD :: "32 word"
  UDF_RECORD_FLAG_OPEN :: "32 word"
  UDF_RECORD_FLAG_HAS_UPDATES :: "32 word"
  UDF_RECORD_FLAG_PREEXISTS :: "32 word"

record as_bin =
  inuse :: bool
  bin_name :: string

record as_storage_rd =
  bins :: "as_bin list"

text \<open>
  Modelled from the spec: \<open>as_bin_inuse_has\<close> (datamodel.h, not among the sources) tells
  whether the storage record still holds a bin that is in use; the spec's "the write left
  zero bins" is its negation.
\<close>

fun as_bin_inuse_has :: "as_storage_rd \<Rightarrow> bool" where
  "as_bin_inuse_has rd = (filter inuse (bins rd) \<noteq> [])"

record udf_record =
  flag :: "32 word"
  rd :: as_storage_rd

definition udf_zero_bins_left :: "udf_record_flags \<Rightarrow> udf_record \<Rightarrow> bool" where
  "udf_zero_bins_left F urecord =
     ((flag urecord AND UDF_RECORD_FLAG_IS_SUBRECORD F) = 0 \<and>
      (flag urecord AND UDF_RECORD_FLAG_OPEN F) \<noteq> 0 \<and>
      \<not> as_bin_inuse_has (rd urecord))"

definition udf_getop :: "udf_record_flags \<Rightarrow> udf_record \<Rightarrow> udf_optype" where
  "udf_getop F urecord =
     (let optype =
        (if (flag urecord AND UDF_RECORD_FLAG_HAS_UPDATES F) \<noteq> 0 then
           (if (flag urecord AND UDF_RECORD_FLAG_OPEN F) \<noteq> 0 then UDF_OPTYPE_WRITE
            else if (flag urecord AND UDF_RECORD_FLAG_PREEXISTS F) \<noteq> 0 then UDF_OPTYPE_DELETE
            else UDF_OPTYPE_NONE)
         else if (flag urecord AND UDF_RECORD_FLAG_PREEXISTS F) \<noteq> 0 \<and>
                 (flag urecord AND UDF_RECORD_FLAG_OPEN F) = 0 then UDF_OPTYPE_DELETE
         else UDF_OPTYPE_READ)
      in if udf_zero_bins_left F urecord then UDF_OPTYPE_DELETE else optype)"

text \<open>
  The classification as the specification words it, over the five facts it names: the
  record has updates, is open, pre-existed, is a sub-record, and how many bins are in use.
\<close>

definition has_updates :: "udf_record_flags \<Rightarrow> udf_record \<Rightarrow> bool" where
  "has_updates F urecord = ((flag urecord AND UDF_RECORD_FLAG_HAS_UPDATES F) \<noteq> 0)"

definition is_open :: "udf_record_flags \<Rightarrow> udf_record \<Rightarrow> bool" where
  "is_open F urecord = ((flag urecord AND UDF_RECORD_FLAG_OPEN F) \<noteq> 0)"

definition pre_existed :: "udf_record_flags \<Rightarrow> udf_record \<Rightarrow> bool" where
  "pre_existed F urecord = ((flag urecord AND UDF_RECORD_FLAG_PREEXISTS F) \<noteq> 0)"

definition is_subrecord :: "udf_record_flags \<Rightarrow> udf_record \<Rightarrow> bool" where
  "is_subrecord F urecord = ((flag urecord AND UDF_RECORD_FLAG_IS_SUBRECORD F) \<noteq> 0)"

definition n_bins_inuse :: "udf_record \<Rightarrow> nat" where
  "n_bins_inuse urecord = length (filter inuse (bins (rd urecord)))"

datatype spec_op = NONE | READ | WRITE | DELETE

fun spec_base_op :: "bool \<Rightarrow> bool \<Rightarrow> bool \<Rightarrow> spec_op" where
  "spec_base_op True True _ = WRITE"
| "spec_base_op True False True = DELETE"
| "spec_base_op True False False = NONE"
| "spec_base_op False False True = DELETE"
| "spec_base_op False _ _ = READ"

definition spec_classify :: "bool \<Rightarrow> bool \<Rightarrow> bool \<Rightarrow> bool \<Rightarrow> nat \<Rightarrow> spec_op" where
  "spec_classify upd opn pre sub n =
     (if \<not> sub \<and> opn \<and> n = 0 then DELETE else spec_base_op upd opn pre)"

fun optype_of :: "spec_op \<Rightarrow> udf_optype" where
  "optype_of NONE = UDF_OPTYPE_NONE"
| "optype_of READ = UDF_OPTYPE_READ"
| "optype_of WRITE = UDF_OPTYPE_WRITE"
| "optype_of DELETE = UDF_OPTYPE_DELETE"

section \<open>The node's shared state and the calls that leave the core\<close>

text \<open>
  Calls into collaborators outside the sources (socket layer, wire codec, proxy, batch
  engine, security, allocator, log sink) are recorded, in program order, in a trace. The
  transaction id argument of the reply calls is read from the message body, which is not
  modelled, and is left out of the recorded call.
\<close>

datatype event =
    Cf_warning string
  | As_msg_send_reply ptr "32 word" "32 word" "32 word"
  | As_msg_send_ops_reply ptr cf_dyn_buf
  | As_proxy_send_response ptr "32 word" "32 word" "32 word" "32 word"
  | As_proxy_send_ops_response ptr "32 word" cf_dyn_buf
  | As_batch_add_error ptr "32 word" "32 word"
  | Iudf_orig_cb ptr "32 word"
  | Cf_socket_close ptr
  | Cf_socket_shutdown ptr
  | Cf_free ptr
  | Cf_rc_free ptr
  | As_security_filter_destroy ptr
  | Cf_poll_modify_socket_forgiving ptr ptr
  | Cf_poll_delete_socket ptr ptr
  | Cf_poll_add_socket ptr ptr
  | Cf_socket_disable_blocking ptr
  | Cf_socket_recv ptr "64 word"
  | Cf_malloc "64 word"
  | Cf_info string
  | As_security_refresh ptr
  | Send_rw_messages

datatype crash = Cf_crash string

record as_stats =
  proto_connections_opened :: "64 word"
  proto_connections_closed :: "64 word"
  n_demarshal_error :: "64 word"
  n_tsvc_client_error :: "64 word"
  n_tsvc_batch_sub_error :: "64 word"
  n_tsvc_udf_sub_error :: "64 word"
  reaper_count :: "64 word"

record as_namespace =
  n_client_tsvc_timeout :: "64 word"
  n_client_tsvc_error :: "64 word"
  n_batch_sub_tsvc_timeout :: "64 word"
  n_batch_sub_tsvc_error :: "64 word"
  n_udf_sub_tsvc_timeout :: "64 word"
  n_udf_sub_tsvc_error :: "64 word"
  n_client_udf_complete :: "64 word"
  n_client_udf_timeout :: "64 word"
  n_client_udf_error :: "64 word"
  n_udf_sub_udf_complete :: "64 word"
  n_udf_sub_udf_timeout :: "64 word"
  n_udf_sub_udf_error :: "64 word"

record as_proto =
  version :: "8 word"
  type :: "8 word"
  sz :: "48 word"

text \<open>
  A file handle with the reference count that \<open>cf_rc_alloc\<close> keeps in front of it, and
  the header of a frame buffer.
\<close>

record as_file_handle =
  rc :: int
  client :: string
  sock :: ptr
  poll :: ptr
  last_used :: "64 word"
  reap_me :: bool
  trans_active :: bool
  proto :: ptr
  proto_unread :: "64 word"
  fh_info :: "32 word"
  security_filter :: ptr

text \<open>The two options of \<open>g_config\<close> that the modelled functions read.\<close>

record as_config =
  n_proto_fd_max :: "32 word"
  respond_client_on_master_completion :: bool

text \<open>
  The heap is a store per object type: namespaces, file handles and the headers of
  allocated frame buffers, each addressed by pointer.
\<close>

record world =
  trace :: "event list"
  g_stats :: as_stats
  g_config :: as_config
  namespaces :: "ptr \<Rightarrow> as_namespace"
  fhs :: "ptr \<Rightarrow> as_file_handle"
  protos :: "ptr \<Rightarrow> as_proto"

definition emit :: "event \<Rightarrow> world \<Rightarrow> world" where
  "emit e w = w\<lparr> trace := trace w @ [e] \<rparr>"

definition cf_warning :: "string \<Rightarrow> world \<Rightarrow> world" where
  "cf_warning text w = emit (Cf_warning text) w"

definition upd_ns :: "ptr \<Rightarrow> (as_namespace \<Rightarrow> as_namespace) \<Rightarrow> world \<Rightarrow> world" where
  "upd_ns p f w = w\<lparr> namespaces := (namespaces w)(p := f (namespaces w p)) \<rparr>"

definition upd_fh :: "ptr \<Rightarrow> (as_file_handle \<Rightarrow> as_file_handle) \<Rightarrow> world \<Rightarrow> world" where
  "upd_fh p f w = w\<lparr> fhs := (fhs w)(p := f (fhs w p)) \<rparr>"

definition upd_stats :: "(as_stats \<Rightarrow> as_stats) \<Rightarrow> world \<Rightarrow> world" where
  "upd_stats f w = w\<lparr> g_stats := f (g_stats w) \<rparr>"

text \<open>
  Constants of headers that are not among the sources (proto.h, thr_demarshal.h). The
  specification fixes the known frame version and the security frame type; the
  transaction.c warning text fixes \<open>AS_PROTO_RESULT_FAIL_UNKNOWN\<close>. The remaining ones are
  a parameter of the functions that use them.
\<close>

text \<open>Modelled from the spec: "\<open>version\<close> = 2" is the one known frame version (proto.h).\<close>

definition PROTO_VERSION :: "8 word" where
  "PROTO_VERSION = 2"

text \<open>Modelled from the spec: frame "\<open>type\<close> \<in> {info=1, security=2, data=3, ...}" (proto.h).\<close>

definition PROTO_TYPE_SECURITY :: "8 word" where
  "PROTO_TYPE_SECURITY = 2"

definition AS_PROTO_RESULT_FAIL_UNKNOWN :: "32 word" where
  "AS_PROTO_RESULT_FAIL_UNKNOWN = 1"

record as_consts =
  PROTO_SIZE_MAX :: "64 word"
  PROTO_TYPE_MAX :: "8 word"
  FH_INFO_DONOT_REAP :: "32 word"
  AS_PROTO_RESULT_FAIL_TIMEOUT :: "8 word"

section \<open>transaction.c: the per-origin error emitter\<close>

text \<open>
  The macro \<open>UPDATE_ERROR_STATS(name)\<close>, instantiated in the source for client, batch_sub
  and udf_sub.
\<close>

datatype stats_name = client_stats | batch_sub_stats | udf_sub_stats

fun incr_tsvc_timeout :: "stats_name \<Rightarrow> as_namespace \<Rightarrow> as_namespace" where
  "incr_tsvc_timeout client_stats n = n\<lparr> n_client_tsvc_timeout := n_client_tsvc_timeout n + 1 \<rparr>"
| "incr_tsvc_timeout batch_sub_stats n =
     n\<lparr> n_batch_sub_tsvc_timeout := n_batch_sub_tsvc_timeout n + 1 \<rparr>"
| "incr_tsvc_timeout udf_sub_stats n =
     n\<lparr> n_udf_sub_tsvc_timeout := n_udf_sub_tsvc_timeout n + 1 \<rparr>"

fun incr_tsvc_error :: "stats_name \<Rightarrow> as_namespace \<Rightarrow> as_namespace" where
  "incr_tsvc_error client_stats n = n\<lparr> n_client_tsvc_error := n_client_tsvc_error n + 1 \<rparr>"
| "incr_tsvc_error batch_sub_stats n =
     n\<lparr> n_batch_sub_tsvc_error := n_batch_sub_tsvc_error n + 1 \<rparr>"
| "incr_tsvc_error udf_sub_stats n = n\<lparr> n_udf_sub_tsvc_error := n_udf_sub_tsvc_error n + 1 \<rparr>"

fun incr_global_tsvc_error :: "stats_name \<Rightarrow> as_stats \<Rightarrow> as_stats" where
  "incr_global_tsvc_error client_stats g = g\<lparr> n_tsvc_client_error := n_tsvc_client_error g + 1 \<rparr>"
| "incr_global_tsvc_error batch_sub_stats g =
     g\<lparr> n_tsvc_batch_sub_error := n_tsvc_batch_sub_error g + 1 \<rparr>"
| "incr_global_tsvc_error udf_sub_stats g =
     g\<lparr> n_tsvc_udf_sub_error := n_tsvc_udf_sub_error g + 1 \<rparr>"

definition UPDATE_ERROR_STATS ::
  "as_consts \<Rightarrow> stats_name \<Rightarrow> ptr \<Rightarrow> 32 word \<Rightarrow> world \<Rightarrow> world" where
  "UPDATE_ERROR_STATS C name nsp error_code w =
     (if nsp \<noteq> NULL then
        (if error_code = ucast (AS_PROTO_RESULT_FAIL_TIMEOUT C)
         then upd_ns nsp (incr_tsvc_timeout name) w
         else upd_ns nsp (incr_tsvc_error name) w)
      else upd_stats (incr_global_tsvc_error name) w)"

definition zero_code_warning :: string where
  "zero_code_warning = ''converting error code 0 to 1 (unknown)''"

definition as_transaction_error ::
  "as_consts \<Rightarrow> world \<Rightarrow> as_transaction \<Rightarrow> ptr \<Rightarrow> 32 word \<Rightarrow> crash + world \<times> as_transaction"
  where
  "as_transaction_error C w0 tr nsp error_code0 =
     (let (w, error_code) =
        (if error_code0 = 0 then (cf_warning zero_code_warning w0, AS_PROTO_RESULT_FAIL_UNKNOWN)
         else (w0, error_code0))
      in case origin tr of
        FROM_CLIENT \<Rightarrow>
          (let (w1, tr1) =
             (if from_any tr \<noteq> NULL
              then (emit (As_msg_send_reply (from_any tr) error_code 0 0) w,
                    tr\<lparr> from_any := NULL \<rparr>)
              else (w, tr))
           in Inr (UPDATE_ERROR_STATS C client_stats nsp error_code w1, tr1))
      | FROM_PROXY \<Rightarrow>
          (if from_any tr \<noteq> 0
           then Inr (emit (As_proxy_send_response (from_any tr) (from_data_any tr)
                       error_code 0 0) w,
                     tr\<lparr> from_any := 0 \<rparr>)
           else Inr (w, tr))
      | FROM_BATCH \<Rightarrow>
          (let (w1, tr1) =
             (if from_any tr \<noteq> NULL
              then (emit (As_batch_add_error (from_any tr) (from_data_any tr) error_code) w,
                    tr\<lparr> from_any := NULL, msgp := NULL \<rparr>)
              else (w, tr))
           in Inr (UPDATE_ERROR_STATS C batch_sub_stats nsp error_code w1, tr1))
      | FROM_IUDF \<Rightarrow>
          (let (w1, tr1) =
             (if from_any tr \<noteq> NULL
              then (emit (Iudf_orig_cb (from_any tr) error_code) w, tr\<lparr> from_any := NULL \<rparr>)
              else (w, tr))
           in Inr (UPDATE_ERROR_STATS C udf_sub_stats nsp error_code w1, tr1))
      | FROM_NSUP \<Rightarrow> Inr (w, tr)
      | FROM_UNDEF \<Rightarrow> Inl (Cf_crash ''unexpected transaction origin''))"

definition as_multi_rec_transaction_error ::
  "world \<Rightarrow> as_transaction \<Rightarrow> 32 word \<Rightarrow> crash + world \<times> as_transaction" where
  "as_multi_rec_transaction_error w0 tr error_code0 =
     (let (w, error_code) =
        (if error_code0 = 0 then (cf_warning zero_code_warning w0, AS_PROTO_RESULT_FAIL_UNKNOWN)
         else (w0, error_code0))
      in case origin tr of
        FROM_CLIENT \<Rightarrow>
          (let (w1, tr1) =
             (if from_any tr \<noteq> NULL
              then (emit (As_msg_send_reply (from_any tr) error_code 0 0) w,
                    tr\<lparr> from_any := NULL \<rparr>)
              else (w, tr))
           in Inr (upd_stats (incr_global_tsvc_error client_stats) w1, tr1))
      | _ \<Rightarrow> Inl (Cf_crash ''unexpected transaction origin''))"

section \<open>transaction.c: releasing a file handle\<close>

text \<open>
  \<open>cf_rc_release\<close> belongs to the reference-counting library outside the sources: it
  decrements the count kept with the object and returns the new count, without freeing.
\<close>

definition cf_rc_release :: "ptr \<Rightarrow> world \<Rightarrow> int \<times> world" where
  "cf_rc_release p w = (rc (fhs w p) - 1, upd_fh p (\<lambda>h. h\<lparr> rc := rc h - 1 \<rparr>) w)"

definition negative_rc_warning :: string where
  "negative_rc_warning = ''release file handle: negative ref-count''"

definition bad_proto_warning :: string where
  "bad_proto_warning = ''release file handle: bad proto buf, corruption''"

definition as_release_file_handle :: "as_consts \<Rightarrow> ptr \<Rightarrow> world \<Rightarrow> world" where
  "as_release_file_handle C proto_fd_h w0 =
     (let (rcv, w) = cf_rc_release proto_fd_h w0 in
      if rcv > 0 then w
      else if rcv < 0 then cf_warning negative_rc_warning w
      else
        (let w1 = emit (Cf_socket_close (sock (fhs w proto_fd_h))) w;
             w2 = upd_fh proto_fd_h
                    (\<lambda>h. h\<lparr> fh_info := fh_info h AND NOT (FH_INFO_DONOT_REAP C),
                            sock := NULL \<rparr>) w1;
             pb = proto (fhs w2 proto_fd_h);
             w3 = (if pb \<noteq> NULL then
                     (if version (protos w2 pb) \<noteq> PROTO_VERSION \<or>
                         type (protos w2 pb) \<ge> PROTO_TYPE_MAX C
                      then cf_warning bad_proto_warning w2
                      else upd_fh proto_fd_h (\<lambda>h. h\<lparr> proto := NULL \<rparr>) (emit (Cf_free pb) w2))
                   else w2);
             sf = security_filter (fhs w3 proto_fd_h);
             w4 = (if sf \<noteq> NULL then
                     upd_fh proto_fd_h (\<lambda>h. h\<lparr> security_filter := NULL \<rparr>)
                       (emit (As_security_filter_destroy sf) w3)
                   else w3);
             w5 = emit (Cf_rc_free proto_fd_h) w4
         in upd_stats (\<lambda>g. g\<lparr> proto_connections_closed := proto_connections_closed g + 1 \<rparr>)
              w5))"

text \<open>thr_demarshal.c: reads on the connection are re-armed when a transaction ends.\<close>

definition thr_demarshal_resume :: "ptr \<Rightarrow> world \<Rightarrow> world" where
  "thr_demarshal_resume fd_h w =
     (let w1 = upd_fh fd_h (\<lambda>h. h\<lparr> trans_active := False \<rparr>) w
      in emit (Cf_poll_modify_socket_forgiving (poll (fhs w1 fd_h)) (sock (fhs w1 fd_h))) w1)"

definition as_end_of_transaction :: "as_consts \<Rightarrow> ptr \<Rightarrow> bool \<Rightarrow> world \<Rightarrow> world" where
  "as_end_of_transaction C proto_fd_h force_close w =
     (let w1 = thr_demarshal_resume proto_fd_h w;
          w2 = (if force_close then emit (Cf_socket_shutdown (sock (fhs w1 proto_fd_h))) w1
                else w1)
      in as_release_file_handle C proto_fd_h w2)"

definition as_end_of_transaction_ok :: "as_consts \<Rightarrow> ptr \<Rightarrow> world \<Rightarrow> world" where
  "as_end_of_transaction_ok C proto_fd_h w = as_end_of_transaction C proto_fd_h False w"

definition as_end_of_transaction_force_close :: "as_consts \<Rightarrow> ptr \<Rightarrow> world \<Rightarrow> world" where
  "as_end_of_transaction_force_close C proto_fd_h w = as_end_of_transaction C proto_fd_h True w"

section \<open>udf.c: response, timeout and replica-write callbacks\<close>

text \<open>
  The benchmark and histogram macros of udf.c are telemetry defined outside the sources
  and are not part of the model.
\<close>

definition client_udf_update_stats :: "as_consts \<Rightarrow> ptr \<Rightarrow> 8 word \<Rightarrow> world \<Rightarrow> world" where
  "client_udf_update_stats C nsp code w =
     upd_ns nsp
       (\<lambda>n. if code = AS_PROTO_RESULT_OK
             then n\<lparr> n_client_udf_complete := n_client_udf_complete n + 1 \<rparr>
             else if code = AS_PROTO_RESULT_FAIL_TIMEOUT C
             then n\<lparr> n_client_udf_timeout := n_client_udf_timeout n + 1 \<rparr>
             else n\<lparr> n_client_udf_error := n_client_udf_error n + 1 \<rparr>) w"

definition udf_sub_udf_update_stats :: "as_consts \<Rightarrow> ptr \<Rightarrow> 8 word \<Rightarrow> world \<Rightarrow> world" where
  "udf_sub_udf_update_stats C nsp code w =
     upd_ns nsp
       (\<lambda>n. if code = AS_PROTO_RESULT_OK
             then n\<lparr> n_udf_sub_udf_complete := n_udf_sub_udf_complete n + 1 \<rparr>
             else if code = AS_PROTO_RESULT_FAIL_TIMEOUT C
             then n\<lparr> n_udf_sub_udf_timeout := n_udf_sub_udf_timeout n + 1 \<rparr>
             else n\<lparr> n_udf_sub_udf_error := n_udf_sub_udf_error n + 1 \<rparr>) w"

definition null_from_warning :: string where
  "null_from_warning = ''transaction origin has null from''"

text \<open>
  The test \<open>db && db->used_sz != 0\<close>: the reply buffer to send, if there is a non-empty
  one. A NULL \<open>db\<close> is \<open>None\<close>.
\<close>

fun response_in :: "cf_dyn_buf option \<Rightarrow> cf_dyn_buf option" where
  "response_in None = None"
| "response_in (Some d) = (if used_sz d \<noteq> 0 then Some d else None)"

definition send_udf_response ::
  "as_consts \<Rightarrow> as_transaction \<Rightarrow> cf_dyn_buf option \<Rightarrow> world \<Rightarrow> crash + world \<times> as_transaction"
  where
  "send_udf_response C tr db w =
     (if from_any tr = NULL then Inr (cf_warning null_from_warning w, tr)
      else case origin tr of
        FROM_CLIENT \<Rightarrow>
          (let w1 = (case response_in db of
                       Some d \<Rightarrow> emit (As_msg_send_ops_reply (from_any tr) d) w
                     | None \<Rightarrow> emit (As_msg_send_reply (from_any tr) (ucast (result_code tr))
                                       (generation tr) (void_time tr)) w)
           in Inr (client_udf_update_stats C (ns (rsv tr)) (result_code tr) w1,
                   tr\<lparr> from_any := NULL \<rparr>))
      | FROM_PROXY \<Rightarrow>
          (let w1 = (case response_in db of
                       Some d \<Rightarrow> emit (As_proxy_send_ops_response (from_any tr)
                                         (from_data_any tr) d) w
                     | None \<Rightarrow> emit (As_proxy_send_response (from_any tr) (from_data_any tr)
                                       (ucast (result_code tr)) (generation tr)
                                       (void_time tr)) w)
           in Inr (w1, tr\<lparr> from_any := NULL \<rparr>))
      | FROM_IUDF \<Rightarrow>
          (case response_in db of
             Some d \<Rightarrow> Inl (Cf_crash ''unexpected - internal udf has response'')
           | None \<Rightarrow>
               Inr (udf_sub_udf_update_stats C (ns (rsv tr)) (result_code tr)
                      (emit (Iudf_orig_cb (from_any tr) (ucast (result_code tr))) w),
                    tr\<lparr> from_any := NULL \<rparr>))
      | _ \<Rightarrow> Inl (Cf_crash ''unexpected transaction origin''))"

definition udf_timeout_cb ::
  "as_consts \<Rightarrow> 'r rw_request_scheme \<Rightarrow> world \<Rightarrow> crash + world \<times> 'r rw_request_scheme" where
  "udf_timeout_cb C rw w =
     (if rw_from_any rw = NULL then Inr (w, rw)
      else case rw_origin rw of
        FROM_CLIENT \<Rightarrow>
          Inr (client_udf_update_stats C (ns (rw_rsv rw)) (AS_PROTO_RESULT_FAIL_TIMEOUT C)
                 (as_end_of_transaction_force_close C (rw_from_any rw) w),
               rw\<lparr> rw_from_any := NULL \<rparr>)
      | FROM_PROXY \<Rightarrow> Inr (w, rw\<lparr> rw_from_any := NULL \<rparr>)
      | FROM_IUDF \<Rightarrow>
          Inr (udf_sub_udf_update_stats C (ns (rw_rsv rw)) (AS_PROTO_RESULT_FAIL_TIMEOUT C)
                 (emit (Iudf_orig_cb (rw_from_any rw) (ucast (AS_PROTO_RESULT_FAIL_TIMEOUT C)))
                    w),
               rw\<lparr> rw_from_any := NULL \<rparr>)
      | _ \<Rightarrow> Inl (Cf_crash ''unexpected transaction origin''))"

text \<open>
  \<open>udf_repl_write_cb\<close> builds its transaction in a local variable; \<open>tr_stack\<close> is the
  content of that variable before \<open>as_transaction_init_from_rw\<close> fills it.
\<close>

definition udf_repl_write_cb ::
  "as_consts \<Rightarrow> as_transaction \<Rightarrow> 'r rw_request_scheme \<Rightarrow> world \<Rightarrow>
   crash + world \<times> 'r rw_request_scheme" where
  "udf_repl_write_cb C tr_stack rw w =
     (case as_transaction_init_from_rw tr_stack rw of (tr, rw1) \<Rightarrow>
        (case send_udf_response C tr (Some (response_db rw1)) w of
           Inl c \<Rightarrow> Inl c
         | Inr (w1, tr1) \<Rightarrow> Inr (w1, rw1)))"

datatype as_policy_commit_level = AS_POLICY_COMMIT_LEVEL_ALL | AS_POLICY_COMMIT_LEVEL_MASTER

text \<open>
  rw_utils.h. The macro \<open>TRANSACTION_COMMIT_LEVEL\<close> (transaction_policy.h, not among the
  sources) is a parameter: the commit level it finds for the transaction.
\<close>

definition respond_on_master_complete ::
  "as_config \<Rightarrow> (as_transaction \<Rightarrow> as_policy_commit_level) \<Rightarrow> as_transaction \<Rightarrow> bool" where
  "respond_on_master_complete cfg TRANSACTION_COMMIT_LEVEL tr =
     (origin tr = FROM_CLIENT \<and>
      (respond_client_on_master_completion cfg \<or>
       TRANSACTION_COMMIT_LEVEL tr = AS_POLICY_COMMIT_LEVEL_MASTER))"

text \<open>
  Modelled from the spec: \<open>repl_write_setup_rw\<close> (replica_write.c, not among the sources)
  hands the transaction over to the recyclable pipeline record for the replica-write
  phase: the record takes the transaction's head, origin and \<open>from\<close> included, so that the
  \<open>from.any\<close> of the record is what decides whether a later callback may respond, and the
  transaction gives up its message and its origin.
\<close>

definition repl_write_setup_rw ::
  "'r rw_request_scheme \<Rightarrow> as_transaction \<Rightarrow> 'r rw_request_scheme \<times> as_transaction" where
  "repl_write_setup_rw rw tr =
     (rw\<lparr> rw_msgp := msgp tr, rw_msg_fields := msg_fields tr, rw_origin := origin tr,
          rw_from_flags := from_flags tr, rw_from_any := from_any tr,
          rw_from_data_any := from_data_any tr, rw_start_time := start_time tr,
          rw_benchmark_time := benchmark_time tr \<rparr>,
      tr\<lparr> msgp := NULL, from_any := NULL \<rparr>)"

text \<open>
  \<open>repl_write_make_message\<close> is outside the sources as well; \<open>made\<close> is the truth value it
  returns. The lock around the last two calls has no effect in a sequential run.
\<close>

definition start_udf_repl_write ::
  "as_consts \<Rightarrow> (as_transaction \<Rightarrow> as_policy_commit_level) \<Rightarrow> bool \<Rightarrow>
   'r rw_request_scheme \<Rightarrow> as_transaction \<Rightarrow> world \<Rightarrow>
   crash + world \<times> 'r rw_request_scheme \<times> as_transaction \<times> bool" where
  "start_udf_repl_write C TRANSACTION_COMMIT_LEVEL made rw tr w =
     (if \<not> made then Inr (w, rw, tr, False)
      else
        (let rw1 = rw\<lparr> rw_respond_client_on_master_completion :=
                         respond_on_master_complete (g_config w) TRANSACTION_COMMIT_LEVEL tr \<rparr>
         in case (if rw_respond_client_on_master_completion rw1
                  then send_udf_response C tr (Some (response_db rw1)) w
                  else Inr (w, tr)) of
              Inl c \<Rightarrow> Inl c
            | Inr (w1, tr1) \<Rightarrow>
                (case repl_write_setup_rw rw1 tr1 of (rw2, tr2) \<Rightarrow>
                   Inr (emit Send_rw_messages w1, rw2, tr2, True))))"

text \<open>The two orders in which the timeout and the completion callback can run.\<close>

definition timeout_then_completion ::
  "as_consts \<Rightarrow> as_transaction \<Rightarrow> 'r rw_request_scheme \<Rightarrow> world \<Rightarrow>
   crash + world \<times> 'r rw_request_scheme" where
  "timeout_then_completion C tr_stack rw w =
     (case udf_timeout_cb C rw w of
        Inl c \<Rightarrow> Inl c
      | Inr (w1, rw1) \<Rightarrow> udf_repl_write_cb C tr_stack rw1 w1)"

definition completion_then_timeout ::
  "as_consts \<Rightarrow> as_transaction \<Rightarrow> 'r rw_request_scheme \<Rightarrow> world \<Rightarrow>
   crash + world \<times> 'r rw_request_scheme" where
  "completion_then_timeout C tr_stack rw w =
     (case udf_repl_write_cb C tr_stack rw w of
        Inl c \<Rightarrow> Inl c
      | Inr (w1, rw1) \<Rightarrow> udf_timeout_cb C rw1 w1)"

text \<open>
  A response action: a reply or response sent to a client or proxy, or the completion
  callback of an internal UDF origin.
\<close>

fun is_response :: "event \<Rightarrow> bool" where
  "is_response (As_msg_send_reply _ _ _ _) = True"
| "is_response (As_msg_send_ops_reply _ _) = True"
| "is_response (As_proxy_send_response _ _ _ _ _) = True"
| "is_response (As_proxy_send_ops_response _ _ _) = True"
| "is_response (Iudf_orig_cb _ _) = True"
| "is_response _ = False"

text \<open>The result code that a recorded call delivers to an origin, if it delivers one.\<close>

fun delivered_code :: "event \<Rightarrow> 32 word option" where
  "delivered_code (As_msg_send_reply _ code _ _) = Some code"
| "delivered_code (As_proxy_send_response _ _ code _ _) = Some code"
| "delivered_code (As_batch_add_error _ _ code) = Some code"
| "delivered_code (Iudf_orig_cb _ code) = Some code"
| "delivered_code _ = None"

fun delivered_codes :: "event list \<Rightarrow> 32 word list" where
  "delivered_codes [] = []"
| "delivered_codes (e # es) =
     (case delivered_code e of None \<Rightarrow> delivered_codes es
      | Some c \<Rightarrow> c # delivered_codes es)"

text \<open>The calls a function added to the trace of the world it started from.\<close>

definition new_events :: "world \<Rightarrow> world \<Rightarrow> event list" where
  "new_events w w' = drop (length (trace w)) (trace w')"

text \<open>The response actions of a run that returned, \<open>None\<close> for a run that crashed.\<close>

fun responses_of :: "world \<Rightarrow> crash + world \<times> 'a \<Rightarrow> event list option" where
  "responses_of w (Inl c) = None"
| "responses_of w (Inr (w', x)) = Some (filter is_response (new_events w w'))"

section \<open>thr_demarshal.c: the connection reactor\<close>

text \<open>
  The state of the reactor beside the shared world: the table of file handles that the
  reaper walks, the queue of its free slots, the poll instances of the demarshal threads,
  and the two locals of thread 0 that live across events (\<open>last_fd_print\<close>, \<open>id_cntr\<close>).
\<close>

record reactor =
  g_file_handle_a :: "nat \<Rightarrow> ptr"
  g_freeslot :: "nat list"
  num_threads :: "32 word"
  polls :: "32 word \<Rightarrow> ptr"
  last_fd_print :: "64 word"
  id_cntr :: "32 word"

text \<open>The three listening sockets of thread 0: service (\<open>s\<close>), localhost (\<open>ls\<close>), XDR (\<open>xs\<close>).\<close>

datatype listener = Service_socket | Localhost_socket | Xdr_socket

text \<open>
  What \<open>cf_socket_accept\<close> returned: failure with errno EMFILE or ENFILE, failure with
  another errno, or a client socket and the printed address of the peer.
\<close>

datatype accept_result = Accept_emfile | Accept_error | Accepted ptr string

definition cf_rc_reserve :: "ptr \<Rightarrow> world \<Rightarrow> world" where
  "cf_rc_reserve p w = upd_fh p (\<lambda>h. h\<lparr> rc := rc h + 1 \<rparr>) w"

text \<open>The count of open connections as the accept branch computes it, a \<open>uint32_t\<close>.\<close>

definition conns_open :: "as_stats \<Rightarrow> 32 word" where
  "conns_open g = ucast (proto_connections_opened g - proto_connections_closed g)"

definition fd_limit_warning :: string where
  "fd_limit_warning = ''Hit OS file descriptor limit (EMFILE on accept)''"

definition conn_limit_warning :: string where
  "conn_limit_warning = ''dropping incoming client connection: hit limit''"

text \<open>
  One event on a listening socket (thr_demarshal.c, the accept branch). \<open>t1\<close> and \<open>t2\<close>
  are the first and second reading of \<open>cf_getms\<close> in the branch taken, \<open>new_fd_h\<close> is what
  \<open>cf_rc_alloc\<close> returns, \<open>new_filter\<close> what \<open>as_security_filter_create\<close> returns.
\<close>

definition thr_demarshal_accept ::
  "listener \<Rightarrow> accept_result \<Rightarrow> 64 word \<Rightarrow> 64 word \<Rightarrow> ptr \<Rightarrow> ptr \<Rightarrow> reactor \<times> world \<Rightarrow>
   crash + reactor \<times> world" where
  "thr_demarshal_accept ssock acc t1 t2 new_fd_h new_filter st =
     (let r = fst st; w = snd st in
      case acc of
        Accept_emfile \<Rightarrow>
          (if last_fd_print r \<noteq> t1 div 1000
           then Inr (r\<lparr> last_fd_print := t2 div 1000 \<rparr>, cf_warning fd_limit_warning w)
           else Inr (r, w))
      | Accept_error \<Rightarrow> Inl (Cf_crash ''accept'')
      | Accepted csock sa_str \<Rightarrow>
          (if ssock \<noteq> Xdr_socket \<and> conns_open (g_stats w) > n_proto_fd_max (g_config w) then
             (let (r1, w1) =
                (if last_fd_print r + 5000 < t1
                 then (r\<lparr> last_fd_print := t2 \<rparr>, cf_warning conn_limit_warning w)
                 else (r, w))
              in Inr (r1, emit (Cf_socket_close csock) (emit (Cf_socket_shutdown csock) w1)))
           else
             (let w1 = emit (Cf_socket_disable_blocking csock) w in
              if new_fd_h = NULL then Inl (Cf_crash ''malloc'')
              else
                (let w2 = upd_fh new_fd_h
                            (\<lambda>h. h\<lparr> rc := 1, client := sa_str, sock := csock, last_used := t1,
                                    reap_me := False, trans_active := False, proto := NULL,
                                    proto_unread := 0, fh_info := 0,
                                    security_filter := new_filter \<rparr>) w1;
                     w3 = cf_rc_reserve new_fd_h w2
                 in case g_freeslot r of
                      [] \<Rightarrow>
                        Inr (r, emit (Cf_rc_free new_fd_h)
                                  (emit (Cf_socket_close csock)
                                     (emit (Cf_socket_shutdown csock)
                                        (emit (Cf_info ''unable to add socket to file handle table'')
                                           w3))))
                    | j # free \<Rightarrow>
                        (let r1 = r\<lparr> g_freeslot := free,
                                      g_file_handle_a := (g_file_handle_a r)(j := new_fd_h) \<rparr>;
                             i = id_cntr r1 mod num_threads r1;
                             r2 = r1\<lparr> id_cntr := id_cntr r1 + 1 \<rparr>;
                             w4 = upd_fh new_fd_h (\<lambda>h. h\<lparr> poll := polls r2 i \<rparr>) w3;
                             w5 = emit (Cf_poll_add_socket (polls r2 i) csock) w4
                         in Inr (r2, upd_stats
                                       (\<lambda>g. g\<lparr> proto_connections_opened :=
                                                  proto_connections_opened g + 1 \<rparr>) w5))))))"

text \<open>
  The label \<open>NextEvent_FD_Cleanup\<close>: \<open>tpoll\<close> is the poll instance of the running thread,
  \<open>sck\<close> the socket read from the handle when the event arrived, \<open>proto_p\<close> and
  \<open>has_extra_ref\<close> the locals of that name.
\<close>

definition thr_demarshal_fd_cleanup ::
  "as_consts \<Rightarrow> ptr \<Rightarrow> ptr \<Rightarrow> ptr \<Rightarrow> ptr \<Rightarrow> bool \<Rightarrow> world \<Rightarrow> world" where
  "thr_demarshal_fd_cleanup C tpoll fd_h sck proto_p has_extra_ref w =
     (let w1 = (if proto_p \<noteq> NULL
                then upd_fh fd_h (\<lambda>h. h\<lparr> proto := NULL \<rparr>) (emit (Cf_free proto_p) w)
                else w);
          w2 = (if has_extra_ref then snd (cf_rc_release fd_h w1) else w1);
          w3 = emit (Cf_poll_delete_socket tpoll sck) w2;
          w4 = upd_fh fd_h (\<lambda>h. h\<lparr> reap_me := True \<rparr>) w3
      in as_release_file_handle C fd_h w4)"

text \<open>
  What the socket delivers during one event on a connection: whether the event carries a
  hang-up or error flag, the byte count of \<open>cf_socket_available\<close>, the return value of the
  header read with the 8 header bytes it stored (\<open>sz\<close> read as the big-endian number on the
  wire, which is its value after \<open>as_proto_swap\<close>), the address \<open>cf_malloc\<close> returns, the
  return value of the body read and whether it failed with EAGAIN, and the time.
\<close>

record conn_input =
  hangup :: bool
  available :: "32 word"
  header_n :: int
  header :: as_proto
  malloc_p :: ptr
  body_n :: int
  body_eagain :: bool
  now_ms :: "64 word"

datatype header_result = Header_wait | Header_reject | Header_accept ptr

datatype next_event = NextEvent | NextEvent_FD_Cleanup | Read_complete ptr

definition version_warning :: string where
  "version_warning = ''proto input: unsupported proto version''"

definition size_warning :: string where
  "size_warning = ''proto input: msg greater than PROTO_SIZE_MAX, rejecting''"

text \<open>
  The branch \<open>fd_h->proto == NULL\<close>: read and validate a frame header, then allocate the
  buffer of the whole frame. The block compiled only under \<open>USE_JEM\<close>, which picks a
  memory arena from the first bytes of the body once the header is accepted, is not part
  of the model. \<open>sizeof(as_proto)\<close> is 8.
\<close>

definition thr_demarshal_read_header ::
  "as_consts \<Rightarrow> ptr \<Rightarrow> ptr \<Rightarrow> conn_input \<Rightarrow> world \<Rightarrow> crash + header_result \<times> world" where
  "thr_demarshal_read_header C fd_h sck inp w =
     (if (scast (available inp) :: 64 word) < 8 \<and> available inp \<noteq> 0 then Inr (Header_wait, w)
      else
        (let w1 = emit (Cf_socket_recv sck 8) w in
         if header_n inp \<le> 0 then Inr (Header_reject, w1)
         else if version (header inp) \<noteq> PROTO_VERSION \<and>
                 \<not> (version (header inp) = 0 \<and> type (header inp) = PROTO_TYPE_SECURITY)
         then Inr (Header_reject, cf_warning version_warning w1)
         else if (ucast (sz (header inp)) :: 64 word) > PROTO_SIZE_MAX C
         then Inr (Header_reject, cf_warning size_warning w1)
         else
           (let w2 = emit (Cf_malloc (8 + ucast (sz (header inp)))) w1 in
            if malloc_p inp = NULL then Inl (Cf_crash ''allocation'')
            else
              Inr (Header_accept (malloc_p inp),
                   upd_fh fd_h
                     (\<lambda>h. h\<lparr> proto_unread := ucast (sz (header inp)), proto := malloc_p inp \<rparr>)
                     (w2\<lparr> protos := (protos w2)(malloc_p inp := header inp) \<rparr>)))))"

text \<open>
  The rest of the event up to the test for a finished read. A finished frame is paused,
  detached from the handle and given its own reference; its dispatch (info, security,
  batch, transaction queue) lies beyond this model and is the outcome \<open>Read_complete\<close>.
\<close>

definition thr_demarshal_read_body ::
  "as_consts \<Rightarrow> ptr \<Rightarrow> ptr \<Rightarrow> ptr \<Rightarrow> ptr \<Rightarrow> conn_input \<Rightarrow> world \<Rightarrow> next_event \<times> world" where
  "thr_demarshal_read_body C tpoll fd_h sck proto_p inp w =
     (case (if proto_unread (fhs w fd_h) > 0 then
              (let w1 = emit (Cf_socket_recv sck (proto_unread (fhs w fd_h))) w in
               if body_n inp \<le> 0 then
                 (if body_n inp < 0 \<and> body_eagain inp then Inl (NextEvent, w1)
                  else Inl (NextEvent_FD_Cleanup,
                            thr_demarshal_fd_cleanup C tpoll fd_h sck proto_p False
                              (emit (Cf_info ''receive socket: fail? closing connection.'') w1)))
               else Inr (upd_fh fd_h
                           (\<lambda>h. h\<lparr> proto_unread := proto_unread h - word_of_int (body_n inp) \<rparr>)
                           w1))
            else Inr w) of
        Inl ending \<Rightarrow> ending
      | Inr w2 \<Rightarrow>
          (if proto_unread (fhs w2 fd_h) = 0 then
             (Read_complete proto_p,
              cf_rc_reserve fd_h
                (upd_fh fd_h
                   (\<lambda>h. h\<lparr> last_used := now_ms inp, trans_active := True, proto := NULL,
                           proto_unread := 0 \<rparr>) w2))
           else (NextEvent, w2)))"

definition thr_demarshal_conn_event ::
  "as_consts \<Rightarrow> ptr \<Rightarrow> ptr \<Rightarrow> conn_input \<Rightarrow> world \<Rightarrow> crash + next_event \<times> world" where
  "thr_demarshal_conn_event C tpoll fd_h inp w =
     (let sck = sock (fhs w fd_h) in
      if fd_h = NULL then Inr (NextEvent, emit (Cf_info ''event with null handle, continuing'') w)
      else if hangup inp
      then Inr (NextEvent_FD_Cleanup, thr_demarshal_fd_cleanup C tpoll fd_h sck NULL False w)
      else if trans_active (fhs w fd_h) then Inr (NextEvent, w)
      else if proto (fhs w fd_h) = NULL then
        (case thr_demarshal_read_header C fd_h sck inp w of
           Inl c \<Rightarrow> Inl c
         | Inr (Header_wait, w1) \<Rightarrow> Inr (NextEvent, w1)
         | Inr (Header_reject, w1) \<Rightarrow>
             Inr (NextEvent_FD_Cleanup, thr_demarshal_fd_cleanup C tpoll fd_h sck NULL False w1)
         | Inr (Header_accept proto_p, w1) \<Rightarrow>
             Inr (thr_demarshal_read_body C tpoll fd_h sck proto_p inp w1))
      else Inr (thr_demarshal_read_body C tpoll fd_h sck (proto (fhs w fd_h)) inp w))"

text \<open>
  The reaper thread, one slot of its walk over the table: \<open>now\<close> and \<open>kill_ms\<close> are read
  at the start of the walk, \<open>refresh\<close> tells whether privileges are refreshed in this walk,
  the count is \<open>inuse_cnt\<close>.
\<close>

definition thr_demarshal_reaper_slot ::
  "as_consts \<Rightarrow> nat \<Rightarrow> 64 word \<Rightarrow> 64 word \<Rightarrow> bool \<Rightarrow> reactor \<times> world \<times> nat \<Rightarrow>
   reactor \<times> world \<times> nat" where
  "thr_demarshal_reaper_slot C i now kill_ms refresh st =
     (case st of (r, w, inuse_cnt) \<Rightarrow>
      if g_file_handle_a r i \<noteq> NULL then
        (let fd_h = g_file_handle_a r i;
             w1 = (if refresh then emit (As_security_refresh fd_h) w else w);
             r1 = r\<lparr> g_file_handle_a := (g_file_handle_a r)(i := NULL),
                     g_freeslot := g_freeslot r @ [i] \<rparr>
         in if reap_me (fhs w1 fd_h) then (r1, as_release_file_handle C fd_h w1, inuse_cnt)
            else if kill_ms \<noteq> 0 \<and> last_used (fhs w1 fd_h) + kill_ms < now then
              (if fh_info (fhs w1 fd_h) AND FH_INFO_DONOT_REAP C \<noteq> 0 then (r, w1, inuse_cnt + 1)
               else
                 (r1,
                  upd_stats (\<lambda>g. g\<lparr> reaper_count := reaper_count g + 1 \<rparr>)
                    (as_release_file_handle C fd_h
                       (emit (Cf_socket_shutdown (sock (fhs w1 fd_h))) w1)),
                  inuse_cnt))
            else (r, w1, inuse_cnt + 1))
      else (r, w, inuse_cnt))"

text \<open>
  The header check as the specification words it: the one known version, or version 0 on
  a security frame, and a declared size within the bound.
\<close>

definition header_acceptable :: "as_consts \<Rightarrow> as_proto \<Rightarrow> bool" where
  "header_acceptable C pr =
     ((version pr = 2 \<or> (version pr = 0 \<and> type pr = 2)) \<and>
      unat (sz pr) \<le> unat (PROTO_SIZE_MAX C))"

text \<open>The calls made by the release of the last reference to a handle, in order.\<close>

definition close_events :: "as_consts \<Rightarrow> ptr \<Rightarrow> world \<Rightarrow> event list" where
  "close_events C p w =
     (let h = fhs w p in
      [Cf_socket_close (sock h)] @
      (if proto h = NULL then []
       else if version (protos w (proto h)) = PROTO_VERSION \<and>
               type (protos w (proto h)) < PROTO_TYPE_MAX C
       then [Cf_free (proto h)] else [Cf_warning bad_proto_warning]) @
      (if security_filter h = NULL then [] else [As_security_filter_destroy (security_filter h)]) @
      [Cf_rc_free p])"

text \<open>The reply that \<open>send_udf_response\<close> sends to a client origin.\<close>

definition client_reply :: "as_transaction \<Rightarrow> cf_dyn_buf \<Rightarrow> event" where
  "client_reply tr db =
     (case response_in (Some db) of
        Some d \<Rightarrow> As_msg_send_ops_reply (from_any tr) d
      | None \<Rightarrow> As_msg_send_reply (from_any tr) (ucast (result_code tr)) (generation tr)
                  (void_time tr))"

section \<open>transaction.c: preparing a data message\<close>

text \<open>
  The body of a data request is the list of the \<open>proto.sz\<close> bytes after the frame header;
  positions in it are offsets from the start of the \<open>as_msg\<close>. Fields of the message are
  read as the big-endian numbers on the wire, which is their value once
  \<open>as_msg_swap_header\<close>, \<open>as_msg_swap_field\<close> and \<open>as_msg_swap_op\<close> have swapped them in
  place: no swapped byte is read again at another position, since each field and each op
  starts after the header bytes of the one before.
\<close>

type_synonym byte = "8 word"

definition be_nat :: "byte list \<Rightarrow> nat" where
  "be_nat bs = foldl (\<lambda>a b. a * 256 + unat b) 0 bs"

definition rd32 :: "byte list \<Rightarrow> nat \<Rightarrow> nat" where
  "rd32 body p = be_nat (take 4 (drop p body))"

definition rd16 :: "byte list \<Rightarrow> nat \<Rightarrow> nat" where
  "rd16 body p = be_nat (take 2 (drop p body))"

definition rd8 :: "byte list \<Rightarrow> nat \<Rightarrow> nat" where
  "rd8 body p = be_nat (take 1 (drop p body))"

text \<open>
  Modelled from the spec: \<open>as_msg_field_skip\<close> (proto.h, not among the sources) gives the
  position after a field, or NULL for a field that cannot be one. The wire format is
  "\<open>size(4, BE, includes the type byte but not the size field) | type(1) | value(size-1)\<close>",
  so the next field starts 4 + size bytes on, and a size of 0, which leaves no room for
  the type byte, is the bad field.
\<close>

definition as_msg_field_skip :: "byte list \<Rightarrow> nat \<Rightarrow> nat option" where
  "as_msg_field_skip body p =
     (let field_sz = rd32 body p in if field_sz = 0 then None else Some (p + 4 + field_sz))"

text \<open>
  Modelled from the spec: \<open>as_msg_op_skip\<close> (proto.h, not among the sources) likewise. The
  wire format is "\<open>op_sz(4, BE, includes the op-header bytes but not op_sz) | op(1) |
  particle_type(1) | version(1) | name_sz(1) | name(name_sz) | value(op_sz - 4 - name_sz)\<close>",
  so the next op starts 4 + op_sz bytes on, and an op_sz below 4 + name_sz is the bad op.
\<close>

definition as_msg_op_skip :: "byte list \<Rightarrow> nat \<Rightarrow> nat option" where
  "as_msg_op_skip body p =
     (let op_sz = rd32 body p; name_sz = rd8 body (p + 7)
      in if name_sz + 4 > op_sz then None else Some (p + 4 + op_sz))"

text \<open>
  \<open>as_transaction_set_msg_field_flag\<close> is a switch over the recognized field types that
  sets the bit of the type in \<open>msg_fields\<close>. The type and bit constants are declared
  outside the sources; the table \<open>FB\<close> stands for the switch, with \<open>None\<close> for the types
  that fall to \<open>default\<close>.
\<close>

definition as_transaction_set_msg_field_flag ::
  "(byte \<Rightarrow> 32 word option) \<Rightarrow> 32 word \<Rightarrow> byte \<Rightarrow> 32 word \<times> bool" where
  "as_transaction_set_msg_field_flag FB mf t =
     (case FB t of Some b \<Rightarrow> (mf OR b, True) | None \<Rightarrow> (mf, False))"

text \<open>The warnings with which \<open>as_transaction_demarshal_prepare\<close> returns false.\<close>

datatype demarshal_error =
    Proto_body_too_small | Incomplete_field | Bad_field | Incomplete_field_value
  | Incomplete_op | Bad_op | Incomplete_op_data

text \<open>
  The two loops, on the number of fields and ops still to read. By the layout of the spec
  \<open>sizeof(as_msg)\<close> is 22, \<open>sizeof(as_msg_field)\<close> is 5 and \<open>sizeof(as_msg_op)\<close> is 8; the
  type byte of a field is at offset 4.
\<close>

fun demarshal_fields ::
  "(byte \<Rightarrow> 32 word option) \<Rightarrow> byte list \<Rightarrow> nat \<Rightarrow> nat \<Rightarrow> 32 word \<Rightarrow>
   demarshal_error + nat \<times> 32 word" where
  "demarshal_fields FB body 0 p_read mf = Inr (p_read, mf)"
| "demarshal_fields FB body (Suc n) p_read mf =
     (if p_read + 5 > length body then Inl Incomplete_field
      else case as_msg_field_skip body p_read of
             None \<Rightarrow> Inl Bad_field
           | Some p' \<Rightarrow>
               if p' > length body then Inl Incomplete_field_value
               else demarshal_fields FB body n p'
                      (fst (as_transaction_set_msg_field_flag FB mf (body ! (p_read + 4)))))"

fun demarshal_ops :: "byte list \<Rightarrow> nat \<Rightarrow> nat \<Rightarrow> demarshal_error + nat" where
  "demarshal_ops body 0 p_read = Inr p_read"
| "demarshal_ops body (Suc n) p_read =
     (if p_read + 8 > length body then Inl Incomplete_op
      else case as_msg_op_skip body p_read of
             None \<Rightarrow> Inl Bad_op
           | Some p' \<Rightarrow>
               if p' > length body then Inl Incomplete_op_data
               else demarshal_ops body n p')"

text \<open>
  The result is the field mask of the transaction on success; \<open>n_fields\<close> and \<open>n_ops\<close> are
  the 16-bit numbers at offsets 18 and 20 of the sub-header.
\<close>

definition as_transaction_demarshal_prepare ::
  "(byte \<Rightarrow> 32 word option) \<Rightarrow> byte list \<Rightarrow> 32 word \<Rightarrow> demarshal_error + 32 word" where
  "as_transaction_demarshal_prepare FB body mf =
     (if length body < 22 then Inl Proto_body_too_small
      else case demarshal_fields FB body (rd16 body 18) 22 mf of
             Inl e \<Rightarrow> Inl e
           | Inr (p_read, mf1) \<Rightarrow>
               (case demarshal_ops body (rd16 body 20) p_read of
                  Inl e \<Rightarrow> Inl e
                | Inr p_end \<Rightarrow> Inr mf1))"

text \<open>
  The layout as the specification describes it: \<open>n\<close> fields or ops laid out from \<open>p\<close>, each
  taking 4 bytes of size and as many bytes as the size says.
\<close>

fun tlv_starts :: "byte list \<Rightarrow> nat \<Rightarrow> nat \<Rightarrow> nat list" where
  "tlv_starts body 0 p = []"
| "tlv_starts body (Suc n) p = p # tlv_starts body n (p + 4 + rd32 body p)"

fun tlv_end :: "byte list \<Rightarrow> nat \<Rightarrow> nat \<Rightarrow> nat" where
  "tlv_end body 0 p = p"
| "tlv_end body (Suc n) p = tlv_end body n (p + 4 + rd32 body p)"

text \<open>A field or op whose header and whose declared length end within the body.\<close>

definition field_in_body :: "byte list \<Rightarrow> nat \<Rightarrow> bool" where
  "field_in_body body p = (p + 5 \<le> length body \<and> p + 4 + rd32 body p \<le> length body)"

definition op_in_body :: "byte list \<Rightarrow> nat \<Rightarrow> bool" where
  "op_in_body body p = (p + 8 \<le> length body \<and> p + 4 + rd32 body p \<le> length body)"

text \<open>A field whose size covers its type byte, an op whose size covers header and name.\<close>

definition field_sound :: "byte list \<Rightarrow> nat \<Rightarrow> bool" where
  "field_sound body p = (1 \<le> rd32 body p)"

definition op_sound :: "byte list \<Rightarrow> nat \<Rightarrow> bool" where
  "op_sound body p = (4 + rd8 body (p + 7) \<le> rd32 body p)"

text \<open>
  The body holds the fixed sub-header, and no field and no op extends past its end.
\<close>

definition msg_in_body :: "byte list \<Rightarrow> bool" where
  "msg_in_body body =
     (22 \<le> length body \<and>
      list_all (field_in_body body) (tlv_starts body (rd16 body 18) 22) \<and>
      list_all (op_in_body body)
        (tlv_starts body (rd16 body 20) (tlv_end body (rd16 body 18) 22)))"

definition msg_sound :: "byte list \<Rightarrow> bool" where
  "msg_sound body =
     (list_all (field_sound body) (tlv_starts body (rd16 body 18) 22) \<and>
      list_all (op_sound body)
        (tlv_starts body (rd16 body 20) (tlv_end body (rd16 body 18) 22)))"

definition prepared :: "demarshal_error + 32 word \<Rightarrow> bool" where
  "prepared r = (case r of Inl e \<Rightarrow> False | Inr mf \<Rightarrow> True)"

section \<open>Example states\<close>

definition stats0 :: as_stats where
  "stats0 = \<lparr> proto_connections_opened = 0, proto_connections_closed = 0, n_demarshal_error = 0,
     n_tsvc_client_error = 0, n_tsvc_batch_sub_error = 0, n_tsvc_udf_sub_error = 0,
     reaper_count = 0 \<rparr>"

definition namespace0 :: as_namespace where
  "namespace0 = \<lparr> n_client_tsvc_timeout = 0, n_client_tsvc_error = 0,
     n_batch_sub_tsvc_timeout = 0, n_batch_sub_tsvc_error = 0, n_udf_sub_tsvc_timeout = 0,
     n_udf_sub_tsvc_error = 0, n_client_udf_complete = 0, n_client_udf_timeout = 0,
     n_client_udf_error = 0, n_udf_sub_udf_complete = 0, n_udf_sub_udf_timeout = 0,
     n_udf_sub_udf_error = 0 \<rparr>"

definition config0 :: as_config where
  "config0 = \<lparr> n_proto_fd_max = 15000, respond_client_on_master_completion = True \<rparr>"

text \<open>A legacy security frame (version 0) of 100 bytes, as the reactor accepts it.\<close>

definition proto0 :: as_proto where
  "proto0 = \<lparr> version = 0, type = 2, sz = 100 \<rparr>"

text \<open>A connection on its last reference, with a partly read frame at address 0x6000.\<close>

definition fh0 :: as_file_handle where
  "fh0 = \<lparr> rc = 1, client = ''10.0.0.1:4000'', sock = 0x51, poll = 0x71, last_used = 0,
     reap_me = False, trans_active = False, proto = 0x6000, proto_unread = 40, fh_info = 0,
     security_filter = 0x91 \<rparr>"

definition world0 :: world where
  "world0 = \<lparr> trace = [], g_stats = stats0, g_config = config0,
     namespaces = (\<lambda>_. namespace0), fhs = (\<lambda>_. fh0), protos = (\<lambda>_. proto0) \<rparr>"

text \<open>The same connection with a sound partial frame, and with three references out.\<close>

definition world1 :: world where
  "world1 = world0\<lparr> protos := (\<lambda>_. proto0\<lparr> version := 2 \<rparr>) \<rparr>"

definition world3 :: world where
  "world3 = world0\<lparr> fhs := (\<lambda>_. fh0\<lparr> rc := 3 \<rparr>) \<rparr>"

text \<open>The same connection idle between two frames, with the table's reference and the reactor's.\<close>

definition world_idle :: world where
  "world_idle = world0\<lparr> fhs := (\<lambda>_. fh0\<lparr> rc := 2, proto := NULL, proto_unread := 0 \<rparr>) \<rparr>"

text \<open>A node with 16000 connections open, over its cap of 15000.\<close>

definition world_full :: world where
  "world_full = world0\<lparr> g_stats := stats0\<lparr> proto_connections_opened := 20000,
     proto_connections_closed := 4000 \<rparr> \<rparr>"

definition reactor0 :: reactor where
  "reactor0 = \<lparr> g_file_handle_a = (\<lambda>_. NULL), g_freeslot = [0, 1, 2], num_threads = 4,
     polls = (\<lambda>i. 0x70 + ucast i), last_fd_print = 0, id_cntr = 0 \<rparr>"

definition conn_input0 :: conn_input where
  "conn_input0 = \<lparr> hangup = False, available = 8, header_n = 8,
     header = \<lparr> version = 2, type = 3, sz = 100 \<rparr>, malloc_p = 0x6100, body_n = 60,
     body_eagain = False, now_ms = 5 \<rparr>"

definition conn_input_big :: conn_input where
  "conn_input_big = conn_input0\<lparr> header := \<lparr> version = 2, type = 3, sz = 0x8000001 \<rparr> \<rparr>"

text \<open>
  Two data messages. The first has one field of declared size 0 and five bytes for it.
  The second has the namespace field "test" and one op on bin "a". In the table \<open>FB0\<close>
  only type 0 is recognized.
\<close>

definition zero_field_body :: "byte list" where
  "zero_field_body = replicate 18 0 @ [0, 1, 0, 0] @ [0, 0, 0, 0, 0]"

definition test_body :: "byte list" where
  "test_body = replicate 18 0 @ [0, 1, 0, 1] @ [0, 0, 0, 5, 0, 116, 101, 115, 116] @
     [0, 0, 0, 5, 1, 0, 0, 1, 97]"

definition FB0 :: "byte \<Rightarrow> 32 word option" where
  "FB0 t = (if t = 0 then Some 1 else None)"

definition rsv0 :: as_partition_reservation where
  "rsv0 = \<lparr> ns = 0x1000, pid = 7, tree = 0x2000, n_dupl = 0 \<rparr>"

definition tr0 :: as_transaction where
  "tr0 = \<lparr> msgp = 0x3000, msg_fields = 0, origin = FROM_CLIENT, from_flags = 0,
     from_any = 0x4000, from_data_any = 0, keyd = replicate 20 0, start_time = 0,
     benchmark_time = 0, rsv = rsv0, end_time = 0, result_code = 0, flags = 0,
     generation = 3, void_time = 0, last_update_time = 0 \<rparr>"

definition db0 :: cf_dyn_buf where
  "db0 = \<lparr> buf = [], used_sz = 0 \<rparr>"

definition rw0 :: rw_request where
  "rw0 = \<lparr> rw_msgp = 0x3000, rw_msg_fields = 0, rw_origin = FROM_PROXY, rw_from_flags = 0,
     rw_from_any = 0xBB, rw_from_data_any = 12, rw_keyd = replicate 20 0, rw_start_time = 0,
     rw_benchmark_time = 0, rw_rsv = rsv0, rw_end_time = 0, rw_generation = 3,
     rw_void_time = 0, response_db = db0, rw_respond_client_on_master_completion = False,
     has_udf = True, is_multiop = False, n_dest_nodes = 1 \<rparr>"

definition rw_iudf :: rw_request where
  "rw_iudf = rw0\<lparr> rw_origin := FROM_IUDF, rw_from_any := 0x7000 \<rparr>"

definition consts0 :: as_consts where
  "consts0 = \<lparr> PROTO_SIZE_MAX = 0x8000000, PROTO_TYPE_MAX = 5, FH_INFO_DONOT_REAP = 1,
     AS_PROTO_RESULT_FAIL_TIMEOUT = 9 \<rparr>"

section \<open>Properties\<close>

subsection \<open>Traces and stores under the state updates\<close>

lemma trace_emit [simp]: "trace (emit e w) = trace w @ [e]"
  by (simp add: emit_def)

lemma trace_cf_warning [simp]: "trace (cf_warning t w) = trace w @ [Cf_warning t]"
  by (simp add: cf_warning_def)

lemma trace_upd [simp]:
  "trace (upd_ns p f w) = trace w" "trace (upd_stats g w) = trace w"
  "trace (upd_fh p h w) = trace w"
  by (simp_all add: upd_ns_def upd_stats_def upd_fh_def)

lemma fhs_simps [simp]:
  "fhs (emit e w) = fhs w" "fhs (cf_warning t w) = fhs w" "fhs (upd_stats g w) = fhs w"
  "fhs (upd_ns p f w) = fhs w" "fhs (upd_fh q h w) = (fhs w)(q := h (fhs w q))"
  by (simp_all add: emit_def cf_warning_def upd_stats_def upd_ns_def upd_fh_def)

lemma protos_simps [simp]:
  "protos (emit e w) = protos w" "protos (cf_warning t w) = protos w"
  "protos (upd_stats g w) = protos w"
  "protos (upd_ns p f w) = protos w" "protos (upd_fh q h w) = protos w"
  by (simp_all add: emit_def cf_warning_def upd_stats_def upd_ns_def upd_fh_def)

lemma g_stats_simps [simp]:
  "g_stats (emit e w) = g_stats w" "g_stats (cf_warning t w) = g_stats w"
  "g_stats (upd_stats g w) = g (g_stats w)"
  "g_stats (upd_ns p f w) = g_stats w" "g_stats (upd_fh q h w) = g_stats w"
  by (simp_all add: emit_def cf_warning_def upd_stats_def upd_ns_def upd_fh_def)

lemma namespaces_simps [simp]:
  "namespaces (emit e w) = namespaces w" "namespaces (cf_warning t w) = namespaces w"
  "namespaces (upd_stats g w) = namespaces w"
  "namespaces (upd_ns p f w) = (namespaces w)(p := f (namespaces w p))"
  "namespaces (upd_fh q h w) = namespaces w"
  by (simp_all add: emit_def cf_warning_def upd_stats_def upd_ns_def upd_fh_def)

lemma g_config_simps [simp]:
  "g_config (emit e w) = g_config w" "g_config (cf_warning t w) = g_config w"
  "g_config (upd_stats g w) = g_config w"
  "g_config (upd_ns p f w) = g_config w" "g_config (upd_fh q h w) = g_config w"
  by (simp_all add: emit_def cf_warning_def upd_stats_def upd_ns_def upd_fh_def)

lemma new_events_append [simp]: "trace w' = trace w @ es \<Longrightarrow> new_events w w' = es"
  by (simp add: new_events_def)

lemma trace_UPDATE_ERROR_STATS [simp]: "trace (UPDATE_ERROR_STATS C name nsp code w) = trace w"
  by (simp add: UPDATE_ERROR_STATS_def)

subsection \<open>The claims\<close>

text \<open>
  C1. After master apply, \<open>udf_getop\<close> classifies every UDF record as the specification
  lists: WRITE when the record has updates and is open; DELETE when it has updates, is
  closed and pre-existed; NONE when it has updates, is closed and did not pre-exist; DELETE
  when it has no updates, pre-existed and is closed; READ otherwise; and a record that is
  not a sub-record, is open and is left with zero in-use bins is promoted to DELETE.
\<close>

theorem udf_getop_classification:
  "udf_getop F urecord =
     optype_of (spec_classify (has_updates F urecord) (is_open F urecord)
       (pre_existed F urecord) (is_subrecord F urecord) (n_bins_inuse urecord))"
  by (cases "has_updates F urecord"; cases "is_open F urecord"; cases "pre_existed F urecord")
     (simp_all add: udf_getop_def udf_zero_bins_left_def spec_classify_def has_updates_def
       is_open_def pre_existed_def is_subrecord_def n_bins_inuse_def)

text \<open>
  C9. \<open>as_transaction_init_head_from_rw\<close> copies exactly the nine head fields from the
  request into the transaction and then clears the request's \<open>from.any\<close>: every other field
  of the transaction keeps its value, and every other field of the request, \<open>msgp\<close> among
  them, is unchanged.
\<close>

theorem init_head_from_rw_frame:
  "(case as_transaction_init_head_from_rw tr rw of (tr', rw') \<Rightarrow>
      msgp tr' = rw_msgp rw \<and> msg_fields tr' = rw_msg_fields rw \<and>
      origin tr' = rw_origin rw \<and> from_flags tr' = rw_from_flags rw \<and>
      from_any tr' = rw_from_any rw \<and> from_data_any tr' = rw_from_data_any rw \<and>
      keyd tr' = rw_keyd rw \<and> start_time tr' = rw_start_time rw \<and>
      benchmark_time tr' = rw_benchmark_time rw \<and>
      rsv tr' = rsv tr \<and> end_time tr' = end_time tr \<and> result_code tr' = result_code tr \<and>
      flags tr' = flags tr \<and> generation tr' = generation tr \<and>
      void_time tr' = void_time tr \<and> last_update_time tr' = last_update_time tr \<and>
      as_transaction.more tr' = as_transaction.more tr \<and>
      rw_from_any rw' = NULL \<and>
      rw_msgp rw' = rw_msgp rw \<and> rw_msg_fields rw' = rw_msg_fields rw \<and>
      rw_origin rw' = rw_origin rw \<and> rw_from_flags rw' = rw_from_flags rw \<and>
      rw_from_data_any rw' = rw_from_data_any rw \<and> rw_keyd rw' = rw_keyd rw \<and>
      rw_start_time rw' = rw_start_time rw \<and>
      rw_benchmark_time rw' = rw_benchmark_time rw \<and> rw_rsv rw' = rw_rsv rw \<and>
      rw_end_time rw' = rw_end_time rw \<and> rw_generation rw' = rw_generation rw \<and>
      rw_void_time rw' = rw_void_time rw \<and> response_db rw' = response_db rw \<and>
      rw_respond_client_on_master_completion rw' =
        rw_respond_client_on_master_completion rw \<and>
      has_udf rw' = has_udf rw \<and> is_multiop rw' = is_multiop rw \<and>
      n_dest_nodes rw' = n_dest_nodes rw \<and>
      rw_request.more rw' = rw_request.more rw)"
  by (simp add: as_transaction_init_head_from_rw_def)


subsection \<open>The error emitter\<close>



text \<open>
  C10. For a transaction whose origin is internal-nsup, \<open>as_transaction_error\<close> returns
  with the transaction, the counters of every namespace, the global counters and the file
  handles unchanged, and records no call at all apart from the warning for code 0: no
  response, no callback, no error or timeout counter, whatever the error code.
\<close>

theorem nsup_error_is_noop:
  "origin tr = FROM_NSUP \<Longrightarrow>
   \<exists>w'. as_transaction_error C w tr nsp error_code = Inr (w', tr) \<and>
        g_stats w' = g_stats w \<and> namespaces w' = namespaces w \<and> fhs w' = fhs w \<and>
        protos w' = protos w \<and> g_config w' = g_config w \<and>
        new_events w w' = (if error_code = 0 then [Cf_warning zero_code_warning] else [])"
  by (simp add: as_transaction_error_def)

theorem nsup_error_is_noop_witness:
  "origin (tr0\<lparr> origin := FROM_NSUP \<rparr>) = FROM_NSUP \<and>
   as_transaction_error consts0 world0 (tr0\<lparr> origin := FROM_NSUP \<rparr>) 0x1000 9 =
     Inr (world0, tr0\<lparr> origin := FROM_NSUP \<rparr>)"
proof -
  have h: "origin (tr0\<lparr> origin := FROM_NSUP \<rparr>) = FROM_NSUP" by simp
  from nsup_error_is_noop [OF h, of consts0 world0 "0x1000" 9]
  obtain w' where "as_transaction_error consts0 world0 (tr0\<lparr> origin := FROM_NSUP \<rparr>) 0x1000 9 =
      Inr (w', tr0\<lparr> origin := FROM_NSUP \<rparr>)" and "new_events world0 w' = []" by auto
  have "as_transaction_error consts0 world0 (tr0\<lparr> origin := FROM_NSUP \<rparr>) 0x1000 9 =
     Inr (world0, tr0\<lparr> origin := FROM_NSUP \<rparr>)"
    by (simp add: as_transaction_error_def)
  with h show ?thesis by simp
qed

subsection \<open>Releasing a file handle\<close>

lemma release_trace:
  "trace (as_release_file_handle C p w) = trace w @
     (if rc (fhs w p) = 1 then close_events C p w
      else if rc (fhs w p) < 1 then [Cf_warning negative_rc_warning] else [])"
  by (auto simp: as_release_file_handle_def cf_rc_release_def Let_def close_events_def not_le)





subsection \<open>Completion against timeout\<close>

lemma close_events_no_response: "filter is_response (close_events C p w) = []"
  by (simp add: close_events_def Let_def)

lemma release_no_response:
  "\<exists>es. trace (as_release_file_handle C p w) = trace w @ es \<and> filter is_response es = []"
  by (simp add: release_trace close_events_no_response)

lemma end_of_transaction_no_response:
  "\<exists>es. trace (as_end_of_transaction C p f w) = trace w @ es \<and> filter is_response es = []"
proof -
  define w2 where "w2 = (let w1 = thr_demarshal_resume p w
     in if f then emit (Cf_socket_shutdown (sock (fhs w1 p))) w1 else w1)"
  have a: "\<exists>es. trace w2 = trace w @ es \<and> filter is_response es = []"
    by (simp add: w2_def thr_demarshal_resume_def Let_def)
  have b: "as_end_of_transaction C p f w = as_release_file_handle C p w2"
    by (simp add: as_end_of_transaction_def w2_def Let_def)
  from a obtain es where es: "trace w2 = trace w @ es" "filter is_response es = []" by blast
  from release_no_response [of C p w2] obtain es' where
    es': "trace (as_release_file_handle C p w2) = trace w2 @ es'" "filter is_response es' = []"
    by blast
  show ?thesis using es es' b by simp
qed

lemma timeout_responses:
  assumes "udf_timeout_cb C rw w = Inr (w1, rw1)"
  shows "rw_from_any rw1 = NULL \<and>
         (\<exists>es. trace w1 = trace w @ es \<and> length (filter is_response es) \<le> 1)"
proof (cases "rw_from_any rw = NULL")
  case True
  with assms show ?thesis by (simp add: udf_timeout_cb_def)
next
  case False
  from end_of_transaction_no_response [of C "rw_from_any rw" True w] obtain es where
    "trace (as_end_of_transaction C (rw_from_any rw) True w) = trace w @ es"
    "filter is_response es = []" by blast
  with False assms show ?thesis
    by (cases "rw_origin rw")
       (auto simp: udf_timeout_cb_def client_udf_update_stats_def udf_sub_udf_update_stats_def
          as_end_of_transaction_force_close_def)
qed

lemma completion_after_null:
  "rw_from_any rw = NULL \<Longrightarrow>
   udf_repl_write_cb C tr_stack rw w = Inr (cf_warning null_from_warning w, rw)"
  by (simp add: udf_repl_write_cb_def as_transaction_init_from_rw_def
      as_transaction_init_head_from_rw_def send_udf_response_def)

lemma send_udf_response_nulls:
  "send_udf_response C tr db w = Inr (w1, tr1) \<Longrightarrow>
   from_any tr1 = NULL \<and>
   (\<exists>es. trace w1 = trace w @ es \<and> length (filter is_response es) \<le> 1)"
  by (cases "origin tr"; cases "response_in db")
     (auto simp: send_udf_response_def client_udf_update_stats_def udf_sub_udf_update_stats_def
        Let_def split: if_splits)

lemma completion_responses:
  assumes "udf_repl_write_cb C tr_stack rw w = Inr (w1, rw1)"
  shows "rw1 = rw\<lparr> rw_from_any := NULL \<rparr> \<and>
         (\<exists>es. trace w1 = trace w @ es \<and> length (filter is_response es) \<le> 1)"
  using assms send_udf_response_nulls
  by (fastforce simp: udf_repl_write_cb_def as_transaction_init_from_rw_def
        as_transaction_init_head_from_rw_def split: sum.splits prod.splits)

lemma timeout_after_null: "rw_from_any rw = NULL \<Longrightarrow> udf_timeout_cb C rw w = Inr (w, rw)"
  by (simp add: udf_timeout_cb_def)




subsection \<open>Respond on master complete\<close>

text \<open>
  C3. When \<open>respond_on_master_complete\<close> holds for a transaction that still owns its
  origin and the replica-write message is made, \<open>start_udf_repl_write\<close> sends the client
  reply first and the replica writes after it, and leaves the request's \<open>from.any\<close> NULL;
  the replica-write completion callback, whenever it runs on that request, only logs a
  warning and performs no response action.
\<close>

theorem respond_on_master_complete_once:
  assumes "respond_on_master_complete (g_config w) L tr" and "from_any tr \<noteq> NULL"
  shows "\<exists>w1 rw1 tr1. start_udf_repl_write C L True rw tr w = Inr (w1, rw1, tr1, True) \<and>
     new_events w w1 = [client_reply tr (response_db rw), Send_rw_messages] \<and>
     rw_from_any rw1 = NULL \<and>
     (\<forall>w2 tr_stack.
        udf_repl_write_cb C tr_stack rw1 w2 = Inr (cf_warning null_from_warning w2, rw1) \<and>
        responses_of w2 (udf_repl_write_cb C tr_stack rw1 w2) = Some [])"
  using assms
  by (cases "used_sz (response_db rw) = 0")
     (simp_all add: start_udf_repl_write_def respond_on_master_complete_def send_udf_response_def
      repl_write_setup_rw_def client_reply_def client_udf_update_stats_def
      udf_repl_write_cb_def as_transaction_init_from_rw_def as_transaction_init_head_from_rw_def)

theorem respond_on_master_complete_once_witness:
  "respond_on_master_complete (g_config world0) (\<lambda>_. AS_POLICY_COMMIT_LEVEL_ALL) tr0 \<and>
   from_any tr0 \<noteq> NULL \<and>
   (\<exists>w1 rw1 tr1.
      start_udf_repl_write consts0 (\<lambda>_. AS_POLICY_COMMIT_LEVEL_ALL) True rw0 tr0 world0 =
        Inr (w1, rw1, tr1, True) \<and>
      new_events world0 w1 = [As_msg_send_reply 0x4000 0 3 0, Send_rw_messages] \<and>
      rw_from_any rw1 = NULL \<and>
      responses_of w1 (udf_repl_write_cb consts0 tr0 rw1 w1) = Some [])"
proof -
  have h1: "respond_on_master_complete (g_config world0) (\<lambda>_. AS_POLICY_COMMIT_LEVEL_ALL) tr0"
    by (simp add: respond_on_master_complete_def world0_def config0_def tr0_def)
  have h2: "from_any tr0 \<noteq> NULL"
    by (simp add: tr0_def NULL_def)
  have e: "client_reply tr0 (response_db rw0) = As_msg_send_reply 0x4000 0 3 0"
    by (simp add: client_reply_def rw0_def db0_def tr0_def)
  from respond_on_master_complete_once [OF h1 h2, of consts0 rw0] h1 h2 e show ?thesis
    by fastforce
qed


subsection \<open>The reactor: connection cap\<close>

lemma conns_open_exact:
  fixes opened closed :: "64 word"
  assumes "unat closed \<le> unat opened" "unat opened - unat closed < 2 ^ 32"
  shows "unat (ucast (opened - closed) :: 32 word) = unat opened - unat closed"
proof -
  have "closed \<le> opened" using assms(1) by (simp add: word_le_nat_alt)
  then have "unat (opened - closed) = unat opened - unat closed" by (rule unat_sub)
  with assms(2) show ?thesis
    by (simp add: unsigned_ucast_eq take_bit_nat_eq_self)
qed

text \<open>
  C8. A connection accepted on a listening socket other than the XDR one while the tracked
  count of open connections (opened minus closed, as the accept branch computes it) exceeds
  \<open>proto-fd-max\<close> is shut down and closed and nothing else happens to it: no handle is
  created, no table slot is taken, no counter moves; at most the rate-limited warning is
  logged. A connection accepted on the XDR socket is registered whatever the count is.
  The tracked count is the number of connections opened minus the number closed whenever
  that difference is a 32-bit number.
\<close>

theorem accept_cap:
  "(ssock \<noteq> Xdr_socket \<and> n_proto_fd_max (g_config w) < conns_open (g_stats w) \<longrightarrow>
      (\<exists>r' w'. thr_demarshal_accept ssock (Accepted csock sa) t1 t2 new_fd_h new_filter (r, w) =
                 Inr (r', w') \<and>
         new_events w w' =
           (if last_fd_print r + 5000 < t1 then [Cf_warning conn_limit_warning] else []) @
           [Cf_socket_shutdown csock, Cf_socket_close csock] \<and>
         fhs w' = fhs w \<and> g_stats w' = g_stats w \<and>
         g_file_handle_a r' = g_file_handle_a r \<and> g_freeslot r' = g_freeslot r \<and>
         id_cntr r' = id_cntr r)) \<and>
   (new_fd_h \<noteq> NULL \<and> g_freeslot r = j # free \<longrightarrow>
      (\<exists>r' w'. thr_demarshal_accept Xdr_socket (Accepted csock sa) t1 t2 new_fd_h new_filter
                 (r, w) = Inr (r', w') \<and>
         new_events w w' =
           [Cf_socket_disable_blocking csock,
            Cf_poll_add_socket (polls r (id_cntr r mod num_threads r)) csock] \<and>
         g_file_handle_a r' j = new_fd_h \<and> g_freeslot r' = free \<and>
         sock (fhs w' new_fd_h) = csock \<and> rc (fhs w' new_fd_h) = 2 \<and>
         proto_connections_opened (g_stats w') = proto_connections_opened (g_stats w) + 1)) \<and>
   (unat (proto_connections_closed (g_stats w)) \<le> unat (proto_connections_opened (g_stats w)) \<and>
    unat (proto_connections_opened (g_stats w)) - unat (proto_connections_closed (g_stats w))
      < 2 ^ 32 \<longrightarrow>
      unat (conns_open (g_stats w)) =
        unat (proto_connections_opened (g_stats w)) -
        unat (proto_connections_closed (g_stats w)))"
  by (simp add: thr_demarshal_accept_def Let_def cf_rc_reserve_def conns_open_def
      conns_open_exact)

text \<open>
  With 16000 connections open against a cap of 15000: a client on the service socket is
  dropped, a client on the XDR socket gets slot 0 of the table.
\<close>

theorem accept_cap_witness:
  "Service_socket \<noteq> Xdr_socket \<and>
   n_proto_fd_max (g_config world_full) < conns_open (g_stats world_full) \<and>
   (\<exists>r' w'. thr_demarshal_accept Service_socket (Accepted 0x52 ''10.0.0.2:4001'') 9000 9000
              0x4100 0x92 (reactor0, world_full) = Inr (r', w') \<and>
      new_events world_full w' =
        [Cf_warning conn_limit_warning, Cf_socket_shutdown 0x52, Cf_socket_close 0x52] \<and>
      g_stats w' = g_stats world_full \<and> g_freeslot r' = [0, 1, 2]) \<and>
   (0x4100 :: ptr) \<noteq> NULL \<and> g_freeslot reactor0 = 0 # [1, 2] \<and>
   (\<exists>r' w'. thr_demarshal_accept Xdr_socket (Accepted 0x52 ''10.0.0.2:4001'') 9000 9000
              0x4100 0x92 (reactor0, world_full) = Inr (r', w') \<and>
      new_events world_full w' =
        [Cf_socket_disable_blocking 0x52, Cf_poll_add_socket 0x70 0x52] \<and>
      g_file_handle_a r' 0 = 0x4100 \<and>
      proto_connections_opened (g_stats w') = 20001)"
proof -
  have h1: "Service_socket \<noteq> Xdr_socket \<and>
      n_proto_fd_max (g_config world_full) < conns_open (g_stats world_full)"
    by (simp add: world_full_def world0_def config0_def stats0_def conns_open_def)
  have h2: "(0x4100 :: ptr) \<noteq> NULL \<and> g_freeslot reactor0 = 0 # [1, 2]"
    by (simp add: NULL_def reactor0_def)
  have v: "last_fd_print reactor0 + 5000 < 9000"
    "polls reactor0 (id_cntr reactor0 mod num_threads reactor0) = 0x70"
    "proto_connections_opened (g_stats world_full) + 1 = 20001"
    "g_freeslot reactor0 = [0, 1, 2]"
    by (simp_all add: reactor0_def world_full_def world0_def stats0_def)
  note t = accept_cap [of Service_socket world_full "0x52" "''10.0.0.2:4001''" 9000 9000 "0x4100"
      "0x92" reactor0 0 "[1, 2]"]
  from t h1 v have c1: "\<exists>r' w'. thr_demarshal_accept Service_socket
       (Accepted 0x52 ''10.0.0.2:4001'') 9000 9000 0x4100 0x92 (reactor0, world_full) =
         Inr (r', w') \<and>
      new_events world_full w' =
        [Cf_warning conn_limit_warning, Cf_socket_shutdown 0x52, Cf_socket_close 0x52] \<and>
      g_stats w' = g_stats world_full \<and> g_freeslot r' = [0, 1, 2]"
    by fastforce
  from t h2 v have c2: "\<exists>r' w'. thr_demarshal_accept Xdr_socket
       (Accepted 0x52 ''10.0.0.2:4001'') 9000 9000 0x4100 0x92 (reactor0, world_full) =
         Inr (r', w') \<and>
      new_events world_full w' =
        [Cf_socket_disable_blocking 0x52, Cf_poll_add_socket 0x70 0x52] \<and>
      g_file_handle_a r' 0 = 0x4100 \<and>
      proto_connections_opened (g_stats w') = 20001"
    by fastforce
  from h1 h2 c1 c2 show ?thesis by blast
qed

subsection \<open>The reactor: frame header validation\<close>

lemma unat_ucast_sz: "unat (ucast (x :: 48 word) :: 64 word) = unat x"
proof -
  have "unat x < 2 ^ 48" using unsigned_less [of x, where 'a=nat] by simp
  then have "unat x < 2 ^ 64" by simp
  then show ?thesis by (simp add: unsigned_ucast_eq take_bit_nat_eq_self)
qed

lemma ucast_sz_eq_0: "(ucast (x :: 48 word) :: 64 word) = 0 \<longleftrightarrow> x = 0"
  using unat_ucast_sz [of x] by (metis unat_eq_0)

lemma header_acceptable_iff:
  "header_acceptable C pr \<longleftrightarrow>
     \<not> (version pr \<noteq> PROTO_VERSION \<and> \<not> (version pr = 0 \<and> type pr = PROTO_TYPE_SECURITY)) \<and>
     \<not> ((ucast (sz pr) :: 64 word) > PROTO_SIZE_MAX C)"
  by (auto simp: header_acceptable_def PROTO_VERSION_def PROTO_TYPE_SECURITY_def
      word_less_nat_alt unat_ucast_sz)

lemma read_header_accept:
  assumes "\<not> ((scast (available inp) :: 64 word) < 8 \<and> available inp \<noteq> 0)" "0 < header_n inp"
    "malloc_p inp \<noteq> NULL" "header_acceptable C (header inp)"
  shows "thr_demarshal_read_header C fd_h sck inp w =
     Inr (Header_accept (malloc_p inp),
          upd_fh fd_h (\<lambda>h. h\<lparr> proto_unread := ucast (sz (header inp)), proto := malloc_p inp \<rparr>)
            ((emit (Cf_malloc (8 + ucast (sz (header inp)))) (emit (Cf_socket_recv sck 8) w))
               \<lparr> protos := (protos w)(malloc_p inp := header inp) \<rparr>))"
  using assms by (auto simp: thr_demarshal_read_header_def header_acceptable_iff Let_def)

lemma read_header_reject:
  assumes "\<not> ((scast (available inp) :: 64 word) < 8 \<and> available inp \<noteq> 0)" "0 < header_n inp"
    "\<not> header_acceptable C (header inp)"
  shows "\<exists>t. t \<in> {version_warning, size_warning} \<and>
     thr_demarshal_read_header C fd_h sck inp w =
       Inr (Header_reject, cf_warning t (emit (Cf_socket_recv sck 8) w))"
  using assms by (auto simp: thr_demarshal_read_header_def header_acceptable_iff Let_def)

lemma cleanup_no_frame:
  "thr_demarshal_fd_cleanup C tpoll fd_h sck NULL False w =
     as_release_file_handle C fd_h
       (upd_fh fd_h (\<lambda>h. h\<lparr> reap_me := True \<rparr>) (emit (Cf_poll_delete_socket tpoll sck) w))"
  by (simp add: thr_demarshal_fd_cleanup_def)

lemma close_events_cong:
  "sock (fhs w' p) = sock (fhs w p) \<Longrightarrow> proto (fhs w' p) = proto (fhs w p) \<Longrightarrow>
   security_filter (fhs w' p) = security_filter (fhs w p) \<Longrightarrow> protos w' = protos w \<Longrightarrow>
   close_events C p w' = close_events C p w"
  by (simp add: close_events_def Let_def)

lemma release_rc: "rc (fhs (as_release_file_handle C p w) p) = rc (fhs w p) - 1"
  by (simp add: as_release_file_handle_def cf_rc_release_def Let_def)

lemma release_reap_me: "reap_me (fhs (as_release_file_handle C p w) q) = reap_me (fhs w q)"
  by (simp add: as_release_file_handle_def cf_rc_release_def Let_def)

lemma release_sock_other:
  "1 < rc (fhs w p) \<Longrightarrow> sock (fhs (as_release_file_handle C p w) p) = sock (fhs w p)"
  by (simp add: as_release_file_handle_def cf_rc_release_def Let_def)

lemma release_positive:
  "1 < rc (fhs w p) \<Longrightarrow>
   as_release_file_handle C p w = upd_fh p (\<lambda>h. h\<lparr> rc := rc h - 1 \<rparr>) w"
  by (simp add: as_release_file_handle_def cf_rc_release_def)

lemma read_body_trace:
  "\<exists>es. trace (snd (thr_demarshal_read_body C tpoll fd_h sck proto_p inp w)) = trace w @ es \<and>
        (0 < proto_unread (fhs w fd_h) \<longrightarrow>
           es \<noteq> [] \<and> hd es = Cf_socket_recv sck (proto_unread (fhs w fd_h)))"
proof -
  have r: "\<exists>es. trace (as_release_file_handle C fd_h v) = trace v @ es" for v
    by (simp add: release_trace)
  show ?thesis
    using r [of "upd_fh fd_h (\<lambda>h. h\<lparr> reap_me := True \<rparr>)
      (emit (Cf_poll_delete_socket tpoll sck)
        (if proto_p \<noteq> NULL
         then upd_fh fd_h (\<lambda>h. h\<lparr> proto := NULL \<rparr>)
           (emit (Cf_free proto_p)
             (emit (Cf_info ''receive socket: fail? closing connection.'')
               (emit (Cf_socket_recv sck (proto_unread (fhs w fd_h))) w)))
         else emit (Cf_info ''receive socket: fail? closing connection.'')
               (emit (Cf_socket_recv sck (proto_unread (fhs w fd_h))) w)))"]
    by (auto simp: thr_demarshal_read_body_def thr_demarshal_fd_cleanup_def Let_def
        cf_rc_reserve_def)
qed





subsection \<open>Preparing a data message\<close>

lemma fields_iff:
  "(\<exists>mf'. demarshal_fields FB body n p mf = Inr (tlv_end body n p, mf')) \<longleftrightarrow>
     list_all (\<lambda>q. field_in_body body q \<and> field_sound body q) (tlv_starts body n p)"
  by (induction n arbitrary: p mf)
     (auto simp: as_msg_field_skip_def field_in_body_def field_sound_def Let_def)

lemma fields_end: "demarshal_fields FB body n p mf = Inr (q, mf') \<Longrightarrow> q = tlv_end body n p"
  by (induction n arbitrary: p mf)
     (auto simp: as_msg_field_skip_def Let_def split: if_splits)

lemma ops_iff:
  "demarshal_ops body n p = Inr (tlv_end body n p) \<longleftrightarrow>
     list_all (\<lambda>q. op_in_body body q \<and> op_sound body q) (tlv_starts body n p)"
  by (induction n arbitrary: p)
     (auto simp: as_msg_op_skip_def op_in_body_def op_sound_def Let_def)

lemma ops_end: "demarshal_ops body n p = Inr q \<Longrightarrow> q = tlv_end body n p"
  by (induction n arbitrary: p)
     (auto simp: as_msg_op_skip_def Let_def split: if_splits)

lemma list_all_conj: "list_all (\<lambda>q. P q \<and> Q q) xs \<longleftrightarrow> list_all P xs \<and> list_all Q xs"
  by (induction xs) auto

lemma prepare_iff:
  "prepared (as_transaction_demarshal_prepare FB body mf) \<longleftrightarrow> msg_in_body body \<and> msg_sound body"
proof (cases "length body < 22")
  case True
  then show ?thesis
    by (simp add: prepared_def as_transaction_demarshal_prepare_def msg_in_body_def)
next
  case False
  let ?nf = "rd16 body 18" and ?no = "rd16 body 20"
  show ?thesis
  proof (cases "demarshal_fields FB body ?nf 22 mf")
    case (Inl e)
    then have "\<not> list_all (\<lambda>q. field_in_body body q \<and> field_sound body q)
        (tlv_starts body ?nf 22)"
      using fields_iff [of FB body ?nf 22 mf] by auto
    with Inl False show ?thesis
      by (auto simp: prepared_def as_transaction_demarshal_prepare_def msg_in_body_def
          msg_sound_def list_all_conj)
  next
    case (Inr x)
    obtain q mf1 where x: "x = (q, mf1)" by (cases x)
    with Inr have q: "q = tlv_end body ?nf 22" using fields_end by blast
    with Inr x have fs: "list_all (\<lambda>q. field_in_body body q \<and> field_sound body q)
        (tlv_starts body ?nf 22)"
      using fields_iff [of FB body ?nf 22 mf] by auto
    have "prepared (as_transaction_demarshal_prepare FB body mf) \<longleftrightarrow>
        demarshal_ops body ?no q = Inr (tlv_end body ?no q)"
      using False Inr x ops_end [of body ?no q]
      by (auto simp: prepared_def as_transaction_demarshal_prepare_def split: sum.splits)
    then show ?thesis
      using fs q False by (auto simp: ops_iff msg_in_body_def msg_sound_def list_all_conj)
  qed
qed


lemma rd_append:
  "p + 4 \<le> length body \<Longrightarrow> rd32 (body @ extra) p = rd32 body p"
  "p + 2 \<le> length body \<Longrightarrow> rd16 (body @ extra) p = rd16 body p"
  "p + 1 \<le> length body \<Longrightarrow> rd8 (body @ extra) p = rd8 body p"
  by (simp_all add: rd32_def rd16_def rd8_def)

lemma fields_append:
  "demarshal_fields FB body n p mf = Inr r \<Longrightarrow>
   demarshal_fields FB (body @ extra) n p mf = Inr r"
  by (induction n arbitrary: p mf)
     (auto simp: as_msg_field_skip_def Let_def rd_append nth_append split: if_splits)

lemma ops_append:
  "demarshal_ops body n p = Inr r \<Longrightarrow> demarshal_ops (body @ extra) n p = Inr r"
  by (induction n arbitrary: p)
     (auto simp: as_msg_op_skip_def Let_def rd_append split: if_splits)

lemma prepare_append:
  assumes "as_transaction_demarshal_prepare FB body mf = Inr mf'"
  shows "as_transaction_demarshal_prepare FB (body @ extra) mf = Inr mf'"
proof -
  from assms have len: "22 \<le> length body"
    by (simp add: as_transaction_demarshal_prepare_def split: if_splits)
  from assms len obtain q where
    f: "demarshal_fields FB body (rd16 body 18) 22 mf = Inr (q, mf')" and
    o: "\<exists>e. demarshal_ops body (rd16 body 20) q = Inr e"
    by (auto simp: as_transaction_demarshal_prepare_def split: sum.splits)
  from o obtain e where o': "demarshal_ops body (rd16 body 20) q = Inr e" by blast
  have n: "rd16 (body @ extra) 18 = rd16 body 18" "rd16 (body @ extra) 20 = rd16 body 20"
    using len by (simp_all add: rd_append)
  show ?thesis
    using len fields_append [OF f, of extra] ops_append [OF o', of extra]
    by (simp add: as_transaction_demarshal_prepare_def n)
qed

text \<open>
  C5, as the code has it. \<open>as_transaction_demarshal_prepare\<close> fails exactly when the body
  is smaller than the fixed sub-header, or some field or op (its header or its declared
  length) extends past the end of the body, or some field declares size 0, or some op
  declares a size below 4 plus the length of its name. Bytes that follow the last op never
  cause failure, and whether a field type is recognized never does.
\<close>

theorem demarshal_prepare_failure:
  "(prepared (as_transaction_demarshal_prepare FB body mf) \<longleftrightarrow>
      msg_in_body body \<and> msg_sound body) \<and>
   (prepared (as_transaction_demarshal_prepare FB body mf) \<longrightarrow>
      as_transaction_demarshal_prepare FB (body @ extra) mf =
      as_transaction_demarshal_prepare FB body mf) \<and>
   (prepared (as_transaction_demarshal_prepare (\<lambda>t. None) body mf) \<longleftrightarrow>
      prepared (as_transaction_demarshal_prepare FB body mf))"
proof (intro conjI impI)
  show "prepared (as_transaction_demarshal_prepare FB body mf) \<longleftrightarrow>
      msg_in_body body \<and> msg_sound body"
    by (rule prepare_iff)
  show "prepared (as_transaction_demarshal_prepare (\<lambda>t. None) body mf) \<longleftrightarrow>
      prepared (as_transaction_demarshal_prepare FB body mf)"
    by (simp add: prepare_iff)
next
  assume "prepared (as_transaction_demarshal_prepare FB body mf)"
  then obtain mf' where "as_transaction_demarshal_prepare FB body mf = Inr mf'"
    by (auto simp: prepared_def split: sum.splits)
  then show "as_transaction_demarshal_prepare FB (body @ extra) mf =
      as_transaction_demarshal_prepare FB body mf"
    by (simp add: prepare_append)
qed

text \<open>
  A message with a namespace field and one op is prepared, with the bit of the namespace
  field set, and stays so with two more bytes after the op.
\<close>

theorem demarshal_prepare_failure_witness:
  "prepared (as_transaction_demarshal_prepare FB0 test_body 0) \<and>
   msg_in_body test_body \<and> msg_sound test_body \<and>
   as_transaction_demarshal_prepare FB0 (test_body @ [255, 255]) 0 = Inr 1 \<and>
   prepared (as_transaction_demarshal_prepare (\<lambda>t. None) test_body 0)"
proof -
  have e: "as_transaction_demarshal_prepare FB0 test_body 0 = Inr 1"
    by code_simp
  then have p: "prepared (as_transaction_demarshal_prepare FB0 test_body 0)"
    by (simp add: prepared_def)
  from demarshal_prepare_failure [of FB0 test_body 0 "[255, 255]"] p e show ?thesis
    by simp
qed

text \<open>
  C5 as stated fails: in \<open>zero_field_body\<close> the sub-header is complete and the only field,
  header and declared length, ends one byte before the end of the body, yet preparing it
  fails with "bad as_msg_field".
\<close>

theorem zero_size_field_rejected:
  "msg_in_body zero_field_body \<and>
   as_transaction_demarshal_prepare FB0 zero_field_body 0 = Inl Bad_field"
  by code_simp

end
